theory Spec2Isabelle
  imports Complex_Main "HOL-Library.List_Lexorder" "HOL-Library.Char_ord" "HOL-Library.Multiset"
begin

section \<open>JavaScript values\<close>

text \<open>
  The node catalog is built from values of the JavaScript runtime. A number is a finite
  value, NaN or one of the two infinities; the finite values are read as rationals, so the
  sign of zero and the rounding of doubles are not tracked. A string is a list of
  characters. An object is the list of its own properties in the order in which the
  runtime enumerates them; prototype links are not part of the model.
\<close>

datatype jsnum = Fin rat | NaN | PosInf | NegInf

fun num_neg :: "jsnum \<Rightarrow> jsnum" where
  "num_neg (Fin r) = Fin (- r)"
| "num_neg NaN = NaN"
| "num_neg PosInf = NegInf"
| "num_neg NegInf = PosInf"


datatype jsval =
    VUndef
  | VNull
  | VBool bool
  | VNum jsnum
  | VStr string
  | VBigInt int
  | VRegExp string string
  | VArr "jsval list"
  | VObj "(string \<times> jsval) list"

text \<open>\<open>typeof v === "string" || typeof v === "number" || typeof v === "boolean"\<close>\<close>

fun is_primitive :: "jsval \<Rightarrow> bool" where
  "is_primitive (VStr s) = True"
| "is_primitive (VNum n) = True"
| "is_primitive (VBool b) = True"
| "is_primitive _ = False"

text \<open>\<open>v && typeof v === "object"\<close>: arrays, regular expressions and plain objects, not null.\<close>

fun is_object :: "jsval \<Rightarrow> bool" where
  "is_object (VArr xs) = True"
| "is_object (VObj ps) = True"
| "is_object (VRegExp p f) = True"
| "is_object _ = False"

definition nullish :: "jsval \<Rightarrow> bool" where
  "nullish v = (v = VUndef \<or> v = VNull)"

text \<open>The operator \<open>a ?? b\<close>.\<close>

definition coalesce :: "jsval \<Rightarrow> jsval \<Rightarrow> jsval" where
  "coalesce a b = (if nullish a then b else a)"

subsection \<open>Decimal numerals and \<open>String(v)\<close>\<close>

definition digit_char :: "nat \<Rightarrow> char" where
  "digit_char d = char_of (48 + d)"

fun show_nat :: "nat \<Rightarrow> string" where
  "show_nat n = (if n < 10 then [digit_char n] else show_nat (n div 10) @ [digit_char (n mod 10)])"

declare show_nat.simps [simp del]

definition show_int :: "int \<Rightarrow> string" where
  "show_int i = (if i < 0 then CHR ''-'' # show_nat (nat (- i)) else show_nat (nat i))"

fun join_with :: "string \<Rightarrow> string list \<Rightarrow> string" where
  "join_with sep [] = []"
| "join_with sep [x] = x"
| "join_with sep (x # y # ys) = x @ sep @ join_with sep (y # ys)"

text \<open>
  \<open>String(v)\<close>. The text of a number is the runtime's (\<open>Number::toString\<close>) and is
  taken as the parameter \<open>ns\<close>.
\<close>

fun js_String :: "(jsnum \<Rightarrow> string) \<Rightarrow> jsval \<Rightarrow> string" where
  "js_String ns VUndef = ''undefined''"
| "js_String ns VNull = ''null''"
| "js_String ns (VBool b) = (if b then ''true'' else ''false'')"
| "js_String ns (VNum n) = ns n"
| "js_String ns (VStr s) = s"
| "js_String ns (VBigInt i) = show_int i"
| "js_String ns (VRegExp p f) = ''/'' @ p @ ''/'' @ f"
| "js_String ns (VArr xs) =
     join_with '','' (map (\<lambda>x. if x = VUndef \<or> x = VNull then [] else js_String ns x) xs)"
| "js_String ns (VObj ps) = ''[object Object]''"

subsection \<open>Own properties of a plain object\<close>

text \<open>
  A plain object lists its integer-index keys first, in ascending order, and then its other
  keys in the order of their creation. Writing to an existing key keeps its place.
  Writing \<open>__proto__\<close> on an object that inherits from \<open>Object.prototype\<close> creates no own
  property.
\<close>

definition is_digit :: "char \<Rightarrow> bool" where
  "is_digit c = (48 \<le> (of_char c :: nat) \<and> (of_char c :: nat) \<le> 57)"

fun digits_value :: "nat \<Rightarrow> string \<Rightarrow> nat" where
  "digits_value acc [] = acc"
| "digits_value acc (c # cs) = digits_value (10 * acc + (of_char c - 48)) cs"

definition array_index :: "string \<Rightarrow> nat option" where
  "array_index k =
     (if k \<noteq> [] \<and> list_all is_digit k \<and> (k = ''0'' \<or> hd k \<noteq> CHR ''0'')
         \<and> length k \<le> 10 \<and> digits_value 0 k \<le> 4294967294
      then Some (digits_value 0 k) else None)"

fun obj_insert :: "(string \<times> 'a) list \<Rightarrow> string \<Rightarrow> 'a \<Rightarrow> (string \<times> 'a) list" where
  "obj_insert [] k v = [(k, v)]"
| "obj_insert ((k', v') # ps) k v =
     (case array_index k of
        None \<Rightarrow> (k', v') # obj_insert ps k v
      | Some i \<Rightarrow>
          (case array_index k' of
             None \<Rightarrow> (k, v) # (k', v') # ps
           | Some j \<Rightarrow> if i < j then (k, v) # (k', v') # ps else (k', v') # obj_insert ps k v))"

fun obj_update :: "(string \<times> 'a) list \<Rightarrow> string \<Rightarrow> 'a \<Rightarrow> (string \<times> 'a) list" where
  "obj_update [] k v = []"
| "obj_update ((k', v') # ps) k v =
     (if k' = k then (k, v) # ps else (k', v') # obj_update ps k v)"

definition obj_set :: "(string \<times> 'a) list \<Rightarrow> string \<Rightarrow> 'a \<Rightarrow> (string \<times> 'a) list" where
  "obj_set ps k v =
     (if k = ''__proto__'' then ps
      else if k \<in> set (map fst ps) then obj_update ps k v
      else obj_insert ps k v)"

text \<open>
  Reading a property \<open>v.k\<close> of an evaluated value, for the keys the catalog reads
  (\<open>category\<close>, \<open>color\<close>, ...): none of them is a property of an array or a regular
  expression, so only a plain object answers, with its own property. A property that an
  object would inherit through a prototype installed by a \<open>__proto__\<close> key is outside the
  model.
\<close>

fun get_prop :: "jsval \<Rightarrow> string \<Rightarrow> jsval" where
  "get_prop (VObj ps) k = (case map_of ps k of Some v \<Rightarrow> v | None \<Rightarrow> VUndef)"
| "get_prop _ k = VUndef"

section \<open>Syntax trees\<close>

text \<open>
  The tree that the parser returns. Every node has its \<open>start\<close> and \<open>end\<close> offsets in the
  source text. The node types that the catalog code inspects have a constructor of their
  own; every other node type is an \<open>Other\<close> node with its type name and its children in the
  order in which the tree walker visits them. A \<open>Literal\<close> carries the value the parser
  computed; an array element is absent for a hole; a template literal carries the cooked
  text of its quasis (absent when there is none) and its embedded expressions.
\<close>

datatype node =
    Literal nat nat jsval
  | Identifier nat nat string
  | ArrayExpression nat nat "node option list"
  | ObjectExpression nat nat "node list"
  | Property nat nat bool node node
  | UnaryExpression nat nat string node
  | TemplateLiteral nat nat "string option list" "node list"
  | FunctionExpression nat nat "node option" "node list" node
  | ArrowFunctionExpression nat nat "node list" node
  | CallExpression nat nat node "node list"
  | MemberExpression nat nat node node bool
  | BinaryExpression nat nat node node
  | LogicalExpression nat nat node node
  | ConditionalExpression nat nat node node node
  | NewExpression nat nat node "node list"
  | FunctionDeclaration nat nat "node option" "node list" node
  | VariableDeclarator nat nat node "node option"
  | BlockStatement nat nat "node list"
  | Other string nat nat "node list"

fun node_type :: "node \<Rightarrow> string" where
  "node_type (Literal s e v) = ''Literal''"
| "node_type (Identifier s e n) = ''Identifier''"
| "node_type (ArrayExpression s e els) = ''ArrayExpression''"
| "node_type (ObjectExpression s e ps) = ''ObjectExpression''"
| "node_type (Property s e c k v) = ''Property''"
| "node_type (UnaryExpression s e oper a) = ''UnaryExpression''"
| "node_type (TemplateLiteral s e qs xs) = ''TemplateLiteral''"
| "node_type (FunctionExpression s e i ps b) = ''FunctionExpression''"
| "node_type (ArrowFunctionExpression s e ps b) = ''ArrowFunctionExpression''"
| "node_type (CallExpression s e c as) = ''CallExpression''"
| "node_type (MemberExpression s e ob p c) = ''MemberExpression''"
| "node_type (BinaryExpression s e l r) = ''BinaryExpression''"
| "node_type (LogicalExpression s e l r) = ''LogicalExpression''"
| "node_type (ConditionalExpression s e t c a) = ''ConditionalExpression''"
| "node_type (NewExpression s e c as) = ''NewExpression''"
| "node_type (FunctionDeclaration s e i ps b) = ''FunctionDeclaration''"
| "node_type (VariableDeclarator s e i init) = ''VariableDeclarator''"
| "node_type (BlockStatement s e b) = ''BlockStatement''"
| "node_type (Other t s e cs) = t"

fun node_start :: "node \<Rightarrow> nat" where
  "node_start (Literal s e v) = s"
| "node_start (Identifier s e n) = s"
| "node_start (ArrayExpression s e els) = s"
| "node_start (ObjectExpression s e ps) = s"
| "node_start (Property s e c k v) = s"
| "node_start (UnaryExpression s e oper a) = s"
| "node_start (TemplateLiteral s e qs xs) = s"
| "node_start (FunctionExpression s e i ps b) = s"
| "node_start (ArrowFunctionExpression s e ps b) = s"
| "node_start (CallExpression s e c as) = s"
| "node_start (MemberExpression s e ob p c) = s"
| "node_start (BinaryExpression s e l r) = s"
| "node_start (LogicalExpression s e l r) = s"
| "node_start (ConditionalExpression s e t c a) = s"
| "node_start (NewExpression s e c as) = s"
| "node_start (FunctionDeclaration s e i ps b) = s"
| "node_start (VariableDeclarator s e i init) = s"
| "node_start (BlockStatement s e b) = s"
| "node_start (Other t s e cs) = s"

fun node_end :: "node \<Rightarrow> nat" where
  "node_end (Literal s e v) = e"
| "node_end (Identifier s e n) = e"
| "node_end (ArrayExpression s e els) = e"
| "node_end (ObjectExpression s e ps) = e"
| "node_end (Property s e c k v) = e"
| "node_end (UnaryExpression s e oper a) = e"
| "node_end (TemplateLiteral s e qs xs) = e"
| "node_end (FunctionExpression s e i ps b) = e"
| "node_end (ArrowFunctionExpression s e ps b) = e"
| "node_end (CallExpression s e c as) = e"
| "node_end (MemberExpression s e ob p c) = e"
| "node_end (BinaryExpression s e l r) = e"
| "node_end (LogicalExpression s e l r) = e"
| "node_end (ConditionalExpression s e t c a) = e"
| "node_end (NewExpression s e c as) = e"
| "node_end (FunctionDeclaration s e i ps b) = e"
| "node_end (VariableDeclarator s e i init) = e"
| "node_end (BlockStatement s e b) = e"
| "node_end (Other t s e cs) = e"

section \<open>The constrained evaluator\<close>

text \<open>\<open>src.slice(start, end)\<close> for offsets that are natural numbers.\<close>

definition slice :: "string \<Rightarrow> nat \<Rightarrow> nat \<Rightarrow> string" where
  "slice src s e = take (e - s) (drop s src)"

definition sliceSource :: "string \<Rightarrow> node \<Rightarrow> string" where
  "sliceSource src n = (if src = [] then [] else slice src (node_start n) (node_end n))"

fun isPropertyKeyToString :: "(jsnum \<Rightarrow> string) \<Rightarrow> node \<Rightarrow> string option" where
  "isPropertyKeyToString ns (Property s e computed key val) =
     (if computed then None
      else case key of
             Identifier ks ke name \<Rightarrow> Some name
           | Literal ks ke v \<Rightarrow> Some (js_String ns v)
           | _ \<Rightarrow> None)"
| "isPropertyKeyToString ns _ = None"

definition expr_placeholder :: "string \<Rightarrow> jsval" where
  "expr_placeholder source = VObj [(''kind'', VStr ''expr''), (''source'', VStr source)]"

definition template_placeholder :: "string \<Rightarrow> jsval" where
  "template_placeholder source = VObj [(''kind'', VStr ''template''), (''source'', VStr source)]"

definition function_placeholder :: "string \<Rightarrow> jsval" where
  "function_placeholder source = VObj [(''kind'', VStr ''function''), (''source'', VStr source)]"

definition ref_placeholder :: "string \<Rightarrow> jsval" where
  "ref_placeholder name = VObj [(''kind'', VStr ''ref''), (''name'', VStr name)]"

definition unknown_placeholder :: "string \<Rightarrow> string \<Rightarrow> jsval" where
  "unknown_placeholder ty source =
     VObj [(''kind'', VStr ''unknown''), (''type'', VStr ty), (''source'', VStr source)]"

definition cooked :: "string option \<Rightarrow> string" where
  "cooked q = (case q of Some s \<Rightarrow> s | None \<Rightarrow> [])"

text \<open>
  \<open>evalAst(node, env, src)\<close>. The environment holds the own properties of \<open>env\<close>.
  \<open>evalQuasis\<close> is the loop of the template case: it returns the text built so far, or
  nothing as soon as an embedded expression is not a string, number or boolean.
\<close>

fun evalAst :: "(jsnum \<Rightarrow> string) \<Rightarrow> node \<Rightarrow> (string \<rightharpoonup> jsval) \<Rightarrow> string \<Rightarrow> jsval"
  and evalQuasis :: "(jsnum \<Rightarrow> string) \<Rightarrow> string option list \<Rightarrow> node list
      \<Rightarrow> (string \<rightharpoonup> jsval) \<Rightarrow> string \<Rightarrow> string \<Rightarrow> string option"
where
  "evalAst ns (Literal s e v) env src = v"
| "evalAst ns (Identifier s e name) env src =
     (case env name of Some v \<Rightarrow> v | None \<Rightarrow> ref_placeholder name)"
| "evalAst ns (ArrayExpression s e elements) env src =
     VArr (map (\<lambda>el. case el of None \<Rightarrow> VNull | Some n \<Rightarrow> evalAst ns n env src) elements)"
| "evalAst ns (ObjectExpression s e properties) env src =
     VObj (fold (\<lambda>prop out.
        case prop of
          Property ps pe computed key val \<Rightarrow>
            (case isPropertyKeyToString ns prop of
               None \<Rightarrow> out
             | Some k \<Rightarrow> if k = [] then out else obj_set out k (evalAst ns val env src))
        | _ \<Rightarrow> out) properties [])"
| "evalAst ns (UnaryExpression s e oper arg) env src =
     (case evalAst ns arg env src of
        VNum n \<Rightarrow>
          (if oper = ''-'' then VNum (num_neg n)
           else if oper = ''+'' then VNum n
           else expr_placeholder (sliceSource src (UnaryExpression s e oper arg)))
      | VBool b \<Rightarrow>
          (if oper = ''!'' then VBool (\<not> b)
           else expr_placeholder (sliceSource src (UnaryExpression s e oper arg)))
      | _ \<Rightarrow> expr_placeholder (sliceSource src (UnaryExpression s e oper arg)))"
| "evalAst ns (TemplateLiteral s e quasis expressions) env src =
     (case evalQuasis ns quasis expressions env src [] of
        Some str \<Rightarrow> VStr str
      | None \<Rightarrow> template_placeholder (sliceSource src (TemplateLiteral s e quasis expressions)))"
| "evalAst ns (FunctionExpression s e i ps b) env src =
     function_placeholder (sliceSource src (FunctionExpression s e i ps b))"
| "evalAst ns (ArrowFunctionExpression s e ps b) env src =
     function_placeholder (sliceSource src (ArrowFunctionExpression s e ps b))"
| "evalAst ns (CallExpression s e c as) env src =
     expr_placeholder (sliceSource src (CallExpression s e c as))"
| "evalAst ns (MemberExpression s e ob p c) env src =
     expr_placeholder (sliceSource src (MemberExpression s e ob p c))"
| "evalAst ns (BinaryExpression s e l r) env src =
     expr_placeholder (sliceSource src (BinaryExpression s e l r))"
| "evalAst ns (LogicalExpression s e l r) env src =
     expr_placeholder (sliceSource src (LogicalExpression s e l r))"
| "evalAst ns (ConditionalExpression s e t c a) env src =
     expr_placeholder (sliceSource src (ConditionalExpression s e t c a))"
| "evalAst ns (NewExpression s e c as) env src =
     expr_placeholder (sliceSource src (NewExpression s e c as))"
| "evalAst ns (Property s e c k v) env src =
     unknown_placeholder ''Property'' (sliceSource src (Property s e c k v))"
| "evalAst ns (FunctionDeclaration s e i ps b) env src =
     unknown_placeholder ''FunctionDeclaration'' (sliceSource src (FunctionDeclaration s e i ps b))"
| "evalAst ns (VariableDeclarator s e i init) env src =
     unknown_placeholder ''VariableDeclarator'' (sliceSource src (VariableDeclarator s e i init))"
| "evalAst ns (BlockStatement s e b) env src =
     unknown_placeholder ''BlockStatement'' (sliceSource src (BlockStatement s e b))"
| "evalAst ns (Other t s e cs) env src =
     unknown_placeholder t (sliceSource src (Other t s e cs))"
| "evalQuasis ns [] xs env src acc = Some acc"
| "evalQuasis ns (q # qs) [] env src acc = evalQuasis ns qs [] env src (acc @ cooked q)"
| "evalQuasis ns (q # qs) (x # xs) env src acc =
     (let ev = evalAst ns x env src
      in if is_primitive ev then evalQuasis ns qs xs env src (acc @ cooked q @ js_String ns ev)
         else None)"

section \<open>Finding the registration calls\<close>

fun member_prop_name :: "(jsnum \<Rightarrow> string) \<Rightarrow> node \<Rightarrow> string" where
  "member_prop_name ns (Identifier s e name) = name"
| "member_prop_name ns (Literal s e v) = js_String ns v"
| "member_prop_name ns _ = []"

text \<open>\<open>isRegisterTypeCallee(callee)\<close>: the callee is \<open>RED.nodes.registerType\<close>.\<close>

fun isRegisterTypeCallee :: "(jsnum \<Rightarrow> string) \<Rightarrow> node \<Rightarrow> bool" where
  "isRegisterTypeCallee ns (MemberExpression s e obj prop c) =
     (if member_prop_name ns prop \<noteq> ''registerType'' then False
      else case obj of
             MemberExpression s2 e2 base objProp c2 \<Rightarrow>
               (if member_prop_name ns objProp \<noteq> ''nodes'' then False
                else case base of Identifier s3 e3 name \<Rightarrow> name = ''RED'' | _ \<Rightarrow> False)
           | _ \<Rightarrow> False)"
| "isRegisterTypeCallee ns _ = False"

text \<open>\<open>extractStringLiteral(node)\<close>, where the node may be absent.\<close>

fun extractStringLiteral :: "node option \<Rightarrow> string option" where
  "extractStringLiteral (Some (Literal s e (VStr v))) = Some v"
| "extractStringLiteral _ = None"

subsection \<open>The tree walk\<close>

text \<open>
  \<open>walk.simple\<close> visits the children of a node, in the order of the walker's base
  visitors, and then calls the visitor of the node itself. \<open>walk n\<close> is the sequence of
  nodes in the order of these calls. The key of a property and the property of a member
  expression are visited only when they are computed.
\<close>

fun walk :: "node \<Rightarrow> node list" where
  "walk (Literal s e v) = [Literal s e v]"
| "walk (Identifier s e n) = [Identifier s e n]"
| "walk (ArrayExpression s e els) =
     concat (map (\<lambda>el. case el of None \<Rightarrow> [] | Some n \<Rightarrow> walk n) els) @ [ArrayExpression s e els]"
| "walk (ObjectExpression s e ps) = concat (map walk ps) @ [ObjectExpression s e ps]"
| "walk (Property s e c k v) = (if c then walk k else []) @ walk v @ [Property s e c k v]"
| "walk (UnaryExpression s e oper a) = walk a @ [UnaryExpression s e oper a]"
| "walk (TemplateLiteral s e qs xs) = concat (map walk xs) @ [TemplateLiteral s e qs xs]"
| "walk (FunctionExpression s e i ps b) =
     (case i of None \<Rightarrow> [] | Some n \<Rightarrow> walk n) @ concat (map walk ps) @ walk b
       @ [FunctionExpression s e i ps b]"
| "walk (ArrowFunctionExpression s e ps b) =
     concat (map walk ps) @ walk b @ [ArrowFunctionExpression s e ps b]"
| "walk (CallExpression s e c as) = walk c @ concat (map walk as) @ [CallExpression s e c as]"
| "walk (MemberExpression s e ob p c) =
     walk ob @ (if c then walk p else []) @ [MemberExpression s e ob p c]"
| "walk (BinaryExpression s e l r) = walk l @ walk r @ [BinaryExpression s e l r]"
| "walk (LogicalExpression s e l r) = walk l @ walk r @ [LogicalExpression s e l r]"
| "walk (ConditionalExpression s e t c a) =
     walk t @ walk c @ walk a @ [ConditionalExpression s e t c a]"
| "walk (NewExpression s e c as) = walk c @ concat (map walk as) @ [NewExpression s e c as]"
| "walk (FunctionDeclaration s e i ps b) =
     (case i of None \<Rightarrow> [] | Some n \<Rightarrow> walk n) @ concat (map walk ps) @ walk b
       @ [FunctionDeclaration s e i ps b]"
| "walk (VariableDeclarator s e i init) =
     walk i @ (case init of None \<Rightarrow> [] | Some n \<Rightarrow> walk n) @ [VariableDeclarator s e i init]"
| "walk (BlockStatement s e b) = concat (map walk b) @ [BlockStatement s e b]"
| "walk (Other t s e cs) = concat (map walk cs) @ [Other t s e cs]"

subsection \<open>Pass 1: wrapper functions\<close>

text \<open>
  A wrapper keeps the names of its parameters, the name of the parameter that it passes as
  the type (the code keeps the identifier node and reads only its name) and the options
  literal of the inner call.
\<close>

record wrapper =
  w_params :: "string list"
  w_typeArg :: string
  w_optionsArg :: node

text \<open>The names of the parameters that are plain identifiers; the others are dropped.\<close>

definition param_names :: "node list \<Rightarrow> string list" where
  "param_names ps =
     List.map_filter
       (\<lambda>p. case p of Identifier s e name \<Rightarrow> (if name = [] then None else Some name) | _ \<Rightarrow> None) ps"

fun is_register_call :: "(jsnum \<Rightarrow> string) \<Rightarrow> node \<Rightarrow> bool" where
  "is_register_call ns (CallExpression s e callee as) = isRegisterTypeCallee ns callee"
| "is_register_call ns _ = False"

fun call_arguments :: "node \<Rightarrow> node list" where
  "call_arguments (CallExpression s e callee as) = as"
| "call_arguments _ = []"

fun nth_opt :: "'a list \<Rightarrow> nat \<Rightarrow> 'a option" where
  "nth_opt [] i = None"
| "nth_opt (x # xs) 0 = Some x"
| "nth_opt (x # xs) (Suc i) = nth_opt xs i"

definition maybeRegisterWrapper ::
  "(jsnum \<Rightarrow> string) \<Rightarrow> (string \<rightharpoonup> wrapper) \<Rightarrow> string option \<Rightarrow> string list \<Rightarrow> node
     \<Rightarrow> (string \<rightharpoonup> wrapper)" where
  "maybeRegisterWrapper ns wrappers fnName params bodyNode =
     (case fnName of
        None \<Rightarrow> wrappers
      | Some name \<Rightarrow>
          (if name = [] then wrappers
           else (case find (is_register_call ns) (walk bodyNode) of
                   None \<Rightarrow> wrappers
                 | Some innerCall \<Rightarrow>
                     (case nth_opt (call_arguments innerCall) 0 of
                        Some (Identifier ts te tname) \<Rightarrow>
                          (if tname \<notin> set params then wrappers
                           else (case nth_opt (call_arguments innerCall) 1 of
                                   Some (ObjectExpression os oe props) \<Rightarrow>
                                     wrappers(name \<mapsto>
                                       \<lparr>w_params = params, w_typeArg = tname,
                                        w_optionsArg = ObjectExpression os oe props\<rparr>)
                                 | _ \<Rightarrow> wrappers))
                      | _ \<Rightarrow> wrappers))))"

fun ident_name :: "node option \<Rightarrow> string option" where
  "ident_name (Some (Identifier s e name)) = Some name"
| "ident_name _ = None"

text \<open>The visitors of the first walk, for a function declaration and a variable declarator.\<close>

fun wrapper_visitor :: "(jsnum \<Rightarrow> string) \<Rightarrow> node \<Rightarrow> (string \<rightharpoonup> wrapper) \<Rightarrow> (string \<rightharpoonup> wrapper)" where
  "wrapper_visitor ns (FunctionDeclaration s e i ps body) wrappers =
     maybeRegisterWrapper ns wrappers (ident_name i) (param_names ps) body"
| "wrapper_visitor ns (VariableDeclarator s e i init) wrappers =
     (case ident_name (Some i) of
        None \<Rightarrow> wrappers
      | Some name \<Rightarrow>
          (if name = [] then wrappers
           else (case init of
                   Some (FunctionExpression fs fe fi ps body) \<Rightarrow>
                     (case body of
                        BlockStatement bs be stmts \<Rightarrow>
                          maybeRegisterWrapper ns wrappers (Some name) (param_names ps) body
                      | _ \<Rightarrow> wrappers)
                 | Some (ArrowFunctionExpression fs fe ps body) \<Rightarrow>
                     (case body of
                        BlockStatement bs be stmts \<Rightarrow>
                          maybeRegisterWrapper ns wrappers (Some name) (param_names ps) body
                      | _ \<Rightarrow> wrappers)
                 | _ \<Rightarrow> wrappers)))"
| "wrapper_visitor ns _ wrappers = wrappers"

definition discover_wrappers :: "(jsnum \<Rightarrow> string) \<Rightarrow> node \<Rightarrow> (string \<rightharpoonup> wrapper)" where
  "discover_wrappers ns ast = fold (wrapper_visitor ns) (walk ast) Map.empty"

subsection \<open>Pass 2: direct calls and wrapper calls\<close>

record found_entry =
  f_type :: string
  f_options :: jsval
  f_optionsSource :: string

text \<open>
  \<open>env[p] = a ? evalAst(a, {}, jsSource) : null\<close> for each parameter in turn. The
  environment is a plain object, so a parameter named \<open>__proto__\<close> gets no own property.
\<close>

definition env_set :: "(string \<rightharpoonup> jsval) \<Rightarrow> string \<Rightarrow> jsval \<Rightarrow> (string \<rightharpoonup> jsval)" where
  "env_set env p v = (if p = ''__proto__'' then env else env(p \<mapsto> v))"

fun bind_params :: "(jsnum \<Rightarrow> string) \<Rightarrow> string list \<Rightarrow> node list \<Rightarrow> string
    \<Rightarrow> (string \<rightharpoonup> jsval) \<Rightarrow> (string \<rightharpoonup> jsval)" where
  "bind_params ns [] args src env = env"
| "bind_params ns (p # ps) args src env =
     bind_params ns ps (tl args) src
       (env_set env p (case args of [] \<Rightarrow> VNull | a # rest \<Rightarrow> evalAst ns a Map.empty src))"

text \<open>
  The visitor of the second walk. A value of the type parameter that is not an own
  property of the environment is inherited from the prototype and is never a string.
\<close>

fun call_visitor :: "(jsnum \<Rightarrow> string) \<Rightarrow> string \<Rightarrow> (string \<rightharpoonup> wrapper) \<Rightarrow> node
    \<Rightarrow> found_entry list \<Rightarrow> found_entry list" where
  "call_visitor ns jsSource wrappers (CallExpression s e callee args) found =
     (if isRegisterTypeCallee ns callee then
        (case extractStringLiteral (nth_opt args 0) of
           None \<Rightarrow> found
         | Some ty \<Rightarrow>
             if ty = [] then found
             else found @
               [\<lparr>f_type = ty,
                 f_options = (case nth_opt args 1 of
                                None \<Rightarrow> VNull
                              | Some optionsArg \<Rightarrow> evalAst ns optionsArg Map.empty jsSource),
                 f_optionsSource = (case nth_opt args 1 of
                                      None \<Rightarrow> []
                                    | Some optionsArg \<Rightarrow>
                                        slice jsSource (node_start optionsArg) (node_end optionsArg))\<rparr>])
      else case callee of
             Identifier cs ce name \<Rightarrow>
               (case wrappers name of
                  None \<Rightarrow> found
                | Some w \<Rightarrow>
                    (let env = bind_params ns (w_params w) args jsSource Map.empty
                     in case env (w_typeArg w) of
                          Some (VStr typeValue) \<Rightarrow>
                            if typeValue = [] then found
                            else found @
                              [\<lparr>f_type = typeValue,
                                f_options = evalAst ns (w_optionsArg w) env jsSource,
                                f_optionsSource =
                                  slice jsSource (node_start (w_optionsArg w)) (node_end (w_optionsArg w))\<rparr>]
                        | _ \<Rightarrow> found))
           | _ \<Rightarrow> found)"
| "call_visitor ns jsSource wrappers _ found = found"

definition find_registrations :: "(jsnum \<Rightarrow> string) \<Rightarrow> string \<Rightarrow> node \<Rightarrow> found_entry list" where
  "find_registrations ns jsSource ast =
     fold (call_visitor ns jsSource (discover_wrappers ns ast)) (walk ast) []"

section \<open>Text of the admin page\<close>

text \<open>
  Strings of the page are lists of characters, read as code units below 256. On these,
  \<open>toLowerCase\<close> moves the capital letters of ASCII and of Latin-1 to the small ones, and
  \<open>trim\<close> removes the white space and line terminators at both ends.
\<close>

definition starts_with :: "string \<Rightarrow> string \<Rightarrow> bool" where
  "starts_with s p = (take (length p) s = p)"

definition to_lower_char :: "char \<Rightarrow> char" where
  "to_lower_char c =
     (let n = (of_char c :: nat)
      in if (65 \<le> n \<and> n \<le> 90) \<or> (192 \<le> n \<and> n \<le> 222 \<and> n \<noteq> 215) then char_of (n + 32) else c)"

definition toLowerCase :: "string \<Rightarrow> string" where
  "toLowerCase s = map to_lower_char s"

definition is_space :: "char \<Rightarrow> bool" where
  "is_space c = ((of_char c :: nat) \<in> {9, 10, 11, 12, 13, 32, 160})"

definition trim :: "string \<Rightarrow> string" where
  "trim s = rev (dropWhile is_space (rev (dropWhile is_space s)))"

text \<open>\<open>s.split(d)\<close> for a separator of one character.\<close>

fun split_on :: "char \<Rightarrow> string \<Rightarrow> string list" where
  "split_on d [] = [[]]"
| "split_on d (c # cs) =
     (if c = d then [] # split_on d cs
      else (case split_on d cs of [] \<Rightarrow> [[c]] | p # ps \<Rightarrow> (c # p) # ps))"



definition or_null :: "string \<Rightarrow> string option" where
  "or_null s = (if s = [] then None else Some s)"

subsection \<open>Module names\<close>

record module_parts =
  m_module :: string
  m_modulePackage :: string
  m_moduleSet :: "string option"

definition splitModuleName :: "string \<Rightarrow> module_parts" where
  "splitModuleName s =
     (let parts = split_on (CHR ''/'') s
      in if starts_with s ''@'' \<and> 2 \<le> length parts
         then \<lparr>m_module = s,
               m_modulePackage = join_with ''/'' (take 2 parts),
               m_moduleSet = or_null (join_with ''/'' (drop 2 parts))\<rparr>
         else \<lparr>m_module = s,
               m_modulePackage = (case parts of [] \<Rightarrow> s | p # ps \<Rightarrow> if p = [] then s else p),
               m_moduleSet = or_null (join_with ''/'' (drop 1 parts))\<rparr>)"

subsection \<open>The module splitter\<close>

text \<open>
  The pattern
  \<^verbatim>\<open><!-- --- \[red-module:([^\]]+)\] --- -->([\s\S]*?)(?=<!-- --- \[red-module:|$)\<close>
  is applied again and again, each search starting where the last match ended. A match
  starts with the opening text of the marker, takes the longest run of characters other
  than \<open>]\<close> as the name (at least one), the closing text of the marker, and as content
  the shortest text that is followed by the opening text of a marker or by the end.
\<close>

definition marker_open :: string where
  "marker_open = ''<!-- --- [red-module:''"

definition marker_close :: string where
  "marker_close = ''] --- -->''"

fun until_marker :: "string \<Rightarrow> string \<times> string" where
  "until_marker [] = ([], [])"
| "until_marker (c # cs) =
     (if starts_with (c # cs) marker_open then ([], c # cs)
      else (case until_marker cs of (a, b) \<Rightarrow> (c # a, b)))"

definition match_module :: "string \<Rightarrow> (string \<times> string \<times> string) option" where
  "match_module s =
     (if \<not> starts_with s marker_open then None
      else (let r = drop (length marker_open) s;
                name = takeWhile (\<lambda>c. c \<noteq> CHR '']'') r;
                r2 = dropWhile (\<lambda>c. c \<noteq> CHR '']'') r
            in if name = [] \<or> \<not> starts_with r2 marker_close then None
               else (case until_marker (drop (length marker_close) r2) of
                       (content, rest) \<Rightarrow> Some (name, content, rest))))"

lemma until_marker_length: "length (snd (until_marker s)) \<le> length s"
  by (induction s) (auto split: prod.splits)

lemma match_module_shorter:
  assumes "match_module s = Some (name, content, rest)"
  shows "length rest < length s"
proof -
  let ?r = "drop (length marker_open) s"
  let ?r2 = "dropWhile (\<lambda>c. c \<noteq> CHR '']'') ?r"
  from assms have sw: "starts_with s marker_open"
    by (auto simp: match_module_def split: if_splits)
  from assms have rest: "rest = snd (until_marker (drop (length marker_close) ?r2))"
    by (auto simp: match_module_def Let_def split: if_splits prod.splits)
  have "length rest \<le> length (drop (length marker_close) ?r2)"
    unfolding rest by (rule until_marker_length)
  also have "\<dots> \<le> length ?r2" by simp
  also have "\<dots> \<le> length ?r" by (rule length_dropWhile_le)
  also have "\<dots> < length s"
  proof -
    from sw have "length marker_open \<le> length s"
      by (metis starts_with_def length_take min.cobounded1 min_def nat_le_linear take_all)
    moreover have "length marker_open = 21" by (simp add: marker_open_def)
    ultimately show ?thesis by simp
  qed
  finally show ?thesis .
qed

function split_modules :: "string \<Rightarrow> (string \<times> string) list" where
  "split_modules s =
     (case match_module s of
        Some (name, content, rest) \<Rightarrow> (name, content) # split_modules rest
      | None \<Rightarrow> (case s of [] \<Rightarrow> [] | c # cs \<Rightarrow> split_modules cs))"
  by pat_completeness auto
termination
  by (relation "measure length") (auto dest: match_module_shorter)

declare split_modules.simps [simp del]

section \<open>Collaborators\<close>

text \<open>
  The catalog code calls the HTML library, the script parser and two operations of the
  runtime whose results it does not compute itself. They are the fields of a \<open>host\<close>:
  \<^item> \<open>numberToString\<close>: the text of a number;
  \<^item> \<open>localeCompare\<close>: the comparison of two strings by the collation of the runtime
    (negative, zero or positive);
  \<^item> \<open>acorn_parse\<close>: the syntax tree of a script, absent when the parser throws;
  \<^item> \<open>cheerio_scripts\<close>: the \<open>script\<close> elements of a fragment, in document order;
  \<^item> \<open>cheerio_text\<close>: the text content of a fragment, absent when the library throws;
  \<^item> \<open>cheerio_ids\<close>: the \<open>id\<close> attributes of the elements that have one, in document
    order, absent when the library throws.
\<close>

record script_el =
  el_type :: "string option"
  el_help_name :: "string option"
  el_template_name :: "string option"
  el_html :: "string option"

record host =
  numberToString :: "jsnum \<Rightarrow> string"
  localeCompare :: "string \<Rightarrow> string \<Rightarrow> int"
  acorn_parse :: "string \<Rightarrow> node option"
  cheerio_scripts :: "string \<Rightarrow> script_el list"
  cheerio_text :: "string \<Rightarrow> string option"
  cheerio_ids :: "string \<Rightarrow> string list option"

section \<open>Content of a module\<close>

definition opt_str :: "string option \<Rightarrow> string" where
  "opt_str x = (case x of None \<Rightarrow> [] | Some s \<Rightarrow> s)"

text \<open>\<open>Map.prototype.set\<close>: a new key goes to the end, an old key keeps its place.\<close>

fun map_set :: "(string \<times> 'a) list \<Rightarrow> string \<Rightarrow> 'a \<Rightarrow> (string \<times> 'a) list" where
  "map_set [] k v = [(k, v)]"
| "map_set ((k', v') # ps) k v = (if k' = k then (k, v) # ps else (k', v') # map_set ps k v)"

record module_content =
  mc_js :: "string list"
  mc_helpByType :: "(string \<times> string) list"
  mc_templateByType :: "(string \<times> string) list"

definition script_step :: "script_el \<Rightarrow> module_content \<Rightarrow> module_content" where
  "script_step el acc =
     (let typeAttr = toLowerCase (opt_str (el_type el));
          helpName = opt_str (el_help_name el);
          templateName = opt_str (el_template_name el);
          text = opt_str (el_html el);
          acc1 = (if helpName \<noteq> [] then acc\<lparr>mc_helpByType := map_set (mc_helpByType acc) helpName text\<rparr>
                  else acc);
          acc2 = (if templateName \<noteq> []
                  then acc1\<lparr>mc_templateByType := map_set (mc_templateByType acc1) templateName text\<rparr>
                  else acc1)
      in if helpName = [] \<and> templateName = [] \<and> (typeAttr = ''text/javascript'' \<or> typeAttr = [])
         then (let code = trim text
               in if code \<noteq> [] then acc2\<lparr>mc_js := mc_js acc2 @ [code]\<rparr> else acc2)
         else acc2)"

definition extractScriptsAndDocs :: "host \<Rightarrow> string \<Rightarrow> module_content" where
  "extractScriptsAndDocs H moduleHtml =
     fold script_step (cheerio_scripts H moduleHtml)
       \<lparr>mc_js = [], mc_helpByType = [], mc_templateByType = []\<rparr>"

subsection \<open>Plain text of a fragment\<close>

definition is_blank :: "char \<Rightarrow> bool" where
  "is_blank c = (c = CHR '' '' \<or> c = CHR 0x09)"

text \<open>\<open>replace(/\r\n/g, "\n")\<close>\<close>

fun crlf_to_lf :: "string \<Rightarrow> string" where
  "crlf_to_lf (a # b # cs) =
     (if a = CHR 0x0D \<and> b = CHR 0x0A then CHR 0x0A # crlf_to_lf cs else a # crlf_to_lf (b # cs))"
| "crlf_to_lf cs = cs"

text \<open>\<open>replace(/[ \t]+/g, " ")\<close>; the flag says that the run has begun.\<close>

fun collapse_blanks :: "bool \<Rightarrow> string \<Rightarrow> string" where
  "collapse_blanks b [] = []"
| "collapse_blanks b (c # cs) =
     (if is_blank c then (if b then collapse_blanks True cs else CHR '' '' # collapse_blanks True cs)
      else c # collapse_blanks False cs)"

text \<open>\<open>replace(/\n{3,}/g, "\n\n")\<close>; the number counts the line feeds of the run so far.\<close>

fun squeeze_newlines :: "nat \<Rightarrow> string \<Rightarrow> string" where
  "squeeze_newlines n [] = []"
| "squeeze_newlines n (c # cs) =
     (if c = CHR 0x0A then (if 2 \<le> n then squeeze_newlines (Suc n) cs
                            else c # squeeze_newlines (Suc n) cs)
      else c # squeeze_newlines 0 cs)"

definition normalizeWhitespace :: "string \<Rightarrow> string" where
  "normalizeWhitespace s = trim (squeeze_newlines 0 (collapse_blanks False (crlf_to_lf s)))"

text \<open>\<open>replace(/<[^>]+>/g, " ")\<close>, the fallback when the library throws.\<close>

function strip_tags :: "string \<Rightarrow> string" where
  "strip_tags [] = []"
| "strip_tags (c # cs) =
     (if c = CHR ''<'' \<and> takeWhile (\<lambda>x. x \<noteq> CHR ''>'') cs \<noteq> []
          \<and> dropWhile (\<lambda>x. x \<noteq> CHR ''>'') cs \<noteq> []
      then CHR '' '' # strip_tags (tl (dropWhile (\<lambda>x. x \<noteq> CHR ''>'') cs))
      else c # strip_tags cs)"
  by pat_completeness auto
termination
proof (relation "measure length")
  show "wf (measure length)" by simp
next
  fix c :: char and cs :: string
  have "length (tl (dropWhile (\<lambda>x. x \<noteq> CHR ''>'') cs)) \<le> length (dropWhile (\<lambda>x. x \<noteq> CHR ''>'') cs)"
    by simp
  also have "\<dots> \<le> length cs" by (rule length_dropWhile_le)
  finally show "(tl (dropWhile (\<lambda>x. x \<noteq> CHR ''>'') cs), c # cs) \<in> measure length" by simp
next
  fix c :: char and cs :: string
  show "(cs, c # cs) \<in> measure length" by simp
qed

definition htmlToText :: "host \<Rightarrow> string \<Rightarrow> string" where
  "htmlToText H html =
     (if html = [] then []
      else (case cheerio_text H html of
              Some t \<Rightarrow> normalizeWhitespace t
            | None \<Rightarrow> normalizeWhitespace (strip_tags html)))"

subsection \<open>Fields of an edit template\<close>

record template_fields =
  tf_node :: "string list"
  tf_config :: "string list"
  tf_all :: "string list"

text \<open>
  A match of \<open>/^prefix(.+)$/\<close>: the rest after the prefix is not empty and has no line
  terminator.
\<close>

definition match_field :: "string \<Rightarrow> string \<Rightarrow> string option" where
  "match_field pre ident =
     (let name = drop (length pre) ident
      in if starts_with ident pre \<and> name \<noteq> [] \<and> CHR 0x0A \<notin> set name \<and> CHR 0x0D \<notin> set name
         then Some name else None)"

definition field_step :: "string \<Rightarrow> template_fields \<Rightarrow> template_fields" where
  "field_step ident flds =
     (if ident = [] then flds
      else (case match_field ''node-input-'' ident of
              Some name \<Rightarrow> flds\<lparr>tf_node := tf_node flds @ [name], tf_all := tf_all flds @ [name]\<rparr>
            | None \<Rightarrow>
                (case match_field ''node-config-input-'' ident of
                   Some name \<Rightarrow>
                     flds\<lparr>tf_config := tf_config flds @ [name], tf_all := tf_all flds @ [name]\<rparr>
                 | None \<Rightarrow> flds)))"

text \<open>\<open>Array.from(new Set(arr.filter(Boolean)))\<close>: the first occurrence of each name stays.\<close>

definition dedupe :: "string list \<Rightarrow> string list" where
  "dedupe arr = fold (\<lambda>x acc. if x \<in> set acc then acc else acc @ [x]) (filter (\<lambda>x. x \<noteq> []) arr) []"

definition extractTemplateFields :: "host \<Rightarrow> string \<Rightarrow> template_fields" where
  "extractTemplateFields H templateHtml =
     (if templateHtml = [] then \<lparr>tf_node = [], tf_config = [], tf_all = []\<rparr>
      else (let flds = (case cheerio_ids H templateHtml of
                            None \<Rightarrow> \<lparr>tf_node = [], tf_config = [], tf_all = []\<rparr>
                          | Some ids \<Rightarrow> fold field_step ids \<lparr>tf_node = [], tf_config = [], tf_all = []\<rparr>)
            in \<lparr>tf_node = dedupe (tf_node flds), tf_config = dedupe (tf_config flds),
                tf_all = dedupe (tf_all flds)\<rparr>))"

section \<open>Registrations of one script\<close>

definition parseEditorJsForRegisterTypes :: "host \<Rightarrow> string \<Rightarrow> found_entry list \<times> string list" where
  "parseEditorJsForRegisterTypes H jsSource =
     (case acorn_parse H jsSource of
        None \<Rightarrow> ([], [''acorn_parse_failed''])
      | Some ast \<Rightarrow> (find_registrations (numberToString H) jsSource ast, []))"

section \<open>The catalog builder\<close>

text \<open>
  One record per node type. The fields that come from the options of a registration hold
  evaluated values and are \<open>VUndef\<close> as long as nothing has written them. The module
  fields of a fresh record are written before anything reads them.
\<close>

record node_rec =
  n_type :: string
  n_module :: string
  n_modulePackage :: string
  n_moduleSet :: "string option"
  n_help :: "(string \<times> string) option"
  n_template :: "(string \<times> string) option"
  n_templateFields :: "template_fields option"
  n_category :: jsval
  n_paletteLabel :: jsval
  n_color :: jsval
  n_icon :: jsval
  n_align :: jsval
  n_inputs :: jsval
  n_outputs :: jsval
  n_outputLabels :: jsval
  n_defaults :: jsval
  n_options :: jsval
  n_optionsSource :: "string option"

definition fresh_node :: "string \<Rightarrow> node_rec" where
  "fresh_node ty =
     \<lparr>n_type = ty, n_module = [], n_modulePackage = [], n_moduleSet = None,
      n_help = None, n_template = None, n_templateFields = None,
      n_category = VUndef, n_paletteLabel = VUndef, n_color = VUndef, n_icon = VUndef,
      n_align = VUndef, n_inputs = VUndef, n_outputs = VUndef, n_outputLabels = VUndef,
      n_defaults = VUndef, n_options = VUndef, n_optionsSource = None\<rparr>"

text \<open>
  \<open>nodesByType[type] || { type }\<close>. The catalog object is a plain object: the model is
  about types that are not names of properties of \<open>Object.prototype\<close> (such as
  \<open>constructor\<close>), for which the lookup finds an own property or nothing.
\<close>

definition node_or_fresh :: "(string \<times> node_rec) list \<Rightarrow> string \<Rightarrow> node_rec" where
  "node_or_fresh nodesByType ty =
     (case map_of nodesByType ty of Some r \<Rightarrow> r | None \<Rightarrow> fresh_node ty)"

definition attach_help :: "host \<Rightarrow> module_parts \<Rightarrow> string \<times> string
    \<Rightarrow> (string \<times> node_rec) list \<Rightarrow> (string \<times> node_rec) list" where
  "attach_help H m entry nodesByType =
     (case entry of
        (ty, helpHtml) \<Rightarrow>
          obj_set nodesByType ty
            ((node_or_fresh nodesByType ty)
               \<lparr>n_module := m_module m, n_modulePackage := m_modulePackage m,
                n_moduleSet := m_moduleSet m,
                n_help := Some (helpHtml, htmlToText H helpHtml)\<rparr>))"

definition attach_template :: "host \<Rightarrow> module_parts \<Rightarrow> string \<times> string
    \<Rightarrow> (string \<times> node_rec) list \<Rightarrow> (string \<times> node_rec) list" where
  "attach_template H m entry nodesByType =
     (case entry of
        (ty, templateHtml) \<Rightarrow>
          obj_set nodesByType ty
            ((node_or_fresh nodesByType ty)
               \<lparr>n_module := m_module m, n_modulePackage := m_modulePackage m,
                n_moduleSet := m_moduleSet m,
                n_template := Some (templateHtml, htmlToText H templateHtml),
                n_templateFields := Some (extractTemplateFields H templateHtml)\<rparr>))"

text \<open>
  The options that the merge reads: \<open>entry.options\<close> when it is an object, else \<open>{}\<close>.
\<close>

definition merge_opts :: "found_entry \<Rightarrow> jsval" where
  "merge_opts entry = (if is_object (f_options entry) then f_options entry else VObj [])"

text \<open>\<open>opts.k ?? prev.k ?? null\<close>\<close>

definition merged_field :: "jsval \<Rightarrow> string \<Rightarrow> jsval \<Rightarrow> jsval" where
  "merged_field opts k prev = coalesce (coalesce (get_prop opts k) prev) VNull"

text \<open>\<open>entry.optionsSource || prev.optionsSource || ""\<close>\<close>

definition merged_source :: "string \<Rightarrow> string option \<Rightarrow> string" where
  "merged_source new prev = (if new \<noteq> [] then new else opt_str prev)"

definition merge_entry :: "module_parts \<Rightarrow> node_rec \<Rightarrow> found_entry \<Rightarrow> node_rec" where
  "merge_entry m prev entry =
     (let opts = merge_opts entry
      in prev\<lparr>n_type := f_type entry,
              n_module := m_module m,
              n_modulePackage := m_modulePackage m,
              n_moduleSet := m_moduleSet m,
              n_category := merged_field opts ''category'' (n_category prev),
              n_paletteLabel := merged_field opts ''paletteLabel'' (n_paletteLabel prev),
              n_color := merged_field opts ''color'' (n_color prev),
              n_icon := merged_field opts ''icon'' (n_icon prev),
              n_align := merged_field opts ''align'' (n_align prev),
              n_inputs := merged_field opts ''inputs'' (n_inputs prev),
              n_outputs := merged_field opts ''outputs'' (n_outputs prev),
              n_outputLabels := merged_field opts ''outputLabels'' (n_outputLabels prev),
              n_defaults := merged_field opts ''defaults'' (n_defaults prev),
              n_options := opts,
              n_optionsSource := Some (merged_source (f_optionsSource entry) (n_optionsSource prev))\<rparr>)"

definition register_entry :: "module_parts \<Rightarrow> found_entry
    \<Rightarrow> (string \<times> node_rec) list \<Rightarrow> (string \<times> node_rec) list" where
  "register_entry m entry nodesByType =
     obj_set nodesByType (f_type entry)
       (merge_entry m (node_or_fresh nodesByType (f_type entry)) entry)"

definition process_js :: "host \<Rightarrow> module_parts \<Rightarrow> string
    \<Rightarrow> (string \<times> node_rec) list \<times> string list \<Rightarrow> (string \<times> node_rec) list \<times> string list" where
  "process_js H m jsSource st =
     (case st of
        (nodesByType, warnings) \<Rightarrow>
          (case parseEditorJsForRegisterTypes H jsSource of
             (found, jsWarnings) \<Rightarrow>
               (fold (register_entry m) found nodesByType,
                warnings @ map (\<lambda>w. m_module m @ '':'' @ w) jsWarnings)))"

definition process_module :: "host \<Rightarrow> string \<times> string
    \<Rightarrow> (string \<times> node_rec) list \<times> string list \<Rightarrow> (string \<times> node_rec) list \<times> string list" where
  "process_module H blk st =
     (case blk of
        (moduleName, moduleHtml) \<Rightarrow>
          (case st of
             (nodesByType, warnings) \<Rightarrow>
               (let m = splitModuleName moduleName;
                    mc = extractScriptsAndDocs H moduleHtml;
                    withHelp = fold (attach_help H m) (mc_helpByType mc) nodesByType;
                    withTemplates = fold (attach_template H m) (mc_templateByType mc) withHelp
                in fold (process_js H m) (mc_js mc) (withTemplates, warnings))))"

subsection \<open>The sorted list\<close>

text \<open>
  \<open>Array.prototype.sort\<close> is stable. For a comparison that is consistent, its result is the
  stable sorted arrangement, which insertion from the right computes.
\<close>

fun insert_sorted :: "('a \<Rightarrow> 'a \<Rightarrow> 'b::{zero,ord}) \<Rightarrow> 'a \<Rightarrow> 'a list \<Rightarrow> 'a list" where
  "insert_sorted cmp x [] = [x]"
| "insert_sorted cmp x (y # ys) =
     (if cmp x y \<le> 0 then x # y # ys else y # insert_sorted cmp x ys)"

definition js_sort :: "('a \<Rightarrow> 'a \<Rightarrow> 'b::{zero,ord}) \<Rightarrow> 'a list \<Rightarrow> 'a list" where
  "js_sort cmp xs = foldr (insert_sorted cmp) xs []"

record parse_result =
  r_nodesByType :: "(string \<times> node_rec) list"
  r_nodes :: "node_rec list"
  r_warnings :: "string list"

definition compare_types :: "host \<Rightarrow> node_rec \<Rightarrow> node_rec \<Rightarrow> int" where
  "compare_types H a b = localeCompare H (n_type a) (n_type b)"

definition parseNodesHtml :: "host \<Rightarrow> string \<Rightarrow> bool \<Rightarrow> parse_result" where
  "parseNodesHtml H html verbose =
     (case fold (process_module H) (split_modules html) ([], []) of
        (nodesByType, warnings) \<Rightarrow>
          \<lparr>r_nodesByType = nodesByType,
           r_nodes = js_sort (compare_types H) (map snd nodesByType),
           r_warnings = (if verbose \<and> nodesByType = [] then warnings @ [''no_nodes_parsed'']
                         else warnings)\<rparr>)"

section \<open>The admin surface\<close>

text \<open>
  What the catalog sees of the outside: the clock, and the answer of the admin surface to
  a request. A request either is rejected by the transport or gets a response. Of a
  response the code reads the success flag, the status, the body as text (absent when
  reading it fails) and, when the content type is JSON, the parsed body, of which the
  catalog only takes \<open>String(...)\<close> (absent when parsing fails). A request takes some
  time; the count of requests is kept so that a theorem can say whether one was made.
\<close>

record response =
  res_ok :: bool
  res_status :: nat
  res_statusText :: string
  res_text :: "string option"
  res_is_json :: bool
  res_json :: "string option"

datatype fetch_outcome = Rejected string | Responded response

datatype error = FetchRejected string | ApiError string | BodyFailed

record world =
  w_now :: int
  w_outcome :: fetch_outcome
  w_elapsed :: nat
  w_requests :: nat

text \<open>\<open>callNodeRed("get", "/nodes", null, config)\<close>; the result is the body as \<open>refresh\<close> reads it.\<close>

definition api_error_message :: "response \<Rightarrow> string" where
  "api_error_message r =
     ''Node-RED API error: '' @ show_nat (res_status r) @ '' '' @ res_statusText r
       @ (if opt_str (res_text r) \<noteq> [] then '' - '' @ opt_str (res_text r) else [])"

definition callNodeRed :: "world \<Rightarrow> (error + string) \<times> world" where
  "callNodeRed w =
     ((case w_outcome w of
         Rejected msg \<Rightarrow> Inl (FetchRejected msg)
       | Responded r \<Rightarrow>
           if \<not> res_ok r then Inl (ApiError (api_error_message r))
           else if res_is_json r
                then (case res_json r of None \<Rightarrow> Inl BodyFailed | Some v \<Rightarrow> Inr v)
                else (case res_text r of None \<Rightarrow> Inl BodyFailed | Some t \<Rightarrow> Inr t)),
      w\<lparr>w_now := w_now w + int (w_elapsed w), w_requests := Suc (w_requests w)\<rparr>)"

section \<open>The catalog cache\<close>

record cat_node = node_rec +
  n_isCustom :: bool

record cache =
  ts :: int
  c_nodesByType :: "(string \<times> cat_node) list"
  c_nodes :: "cat_node list"
  c_warnings :: "string list"
  c_nodeRedUrl :: "string option"

record catalog =
  k_ttlMs :: int
  k_customModules :: "string list"
  k_verbose :: bool
  k_nodeRedUrl :: string
  k_cache :: cache

text \<open>The cache of a new catalog.\<close>

definition empty_cache :: cache where
  "empty_cache = \<lparr>ts = 0, c_nodesByType = [], c_nodes = [], c_warnings = [], c_nodeRedUrl = None\<rparr>"

definition isExpired :: "catalog \<Rightarrow> int \<Rightarrow> bool" where
  "isExpired c now = (if k_ttlMs c = 0 then True else now - ts (k_cache c) > k_ttlMs c)"

definition markCustom :: "string list \<Rightarrow> node_rec \<Rightarrow> cat_node" where
  "markCustom customModules n =
     node_rec.extend n
       (cat_node.fields
          ((n_modulePackage n \<noteq> [] \<and> n_modulePackage n \<in> set customModules)
           \<or> (n_module n \<noteq> [] \<and> list_ex (\<lambda>m. starts_with (n_module n) m) customModules)))"

text \<open>A write to an object without prototype: \<open>__proto__\<close> is a key like any other.\<close>

definition dict_set :: "(string \<times> 'a) list \<Rightarrow> string \<Rightarrow> 'a \<Rightarrow> (string \<times> 'a) list" where
  "dict_set ps k v = (if k \<in> set (map fst ps) then obj_update ps k v else obj_insert ps k v)"

definition build_cache :: "host \<Rightarrow> catalog \<Rightarrow> string \<Rightarrow> int \<Rightarrow> cache" where
  "build_cache H c html now =
     (let parsed = parseNodesHtml H html (k_verbose c);
          nodes = map (markCustom (k_customModules c)) (r_nodes parsed)
      in \<lparr>ts = now,
          c_nodesByType = fold (\<lambda>n acc. dict_set acc (n_type n) n) nodes [],
          c_nodes = nodes,
          c_warnings = r_warnings parsed,
          c_nodeRedUrl = or_null (k_nodeRedUrl c)\<rparr>)"

text \<open>
  \<open>refresh()\<close> and \<open>getCatalog({force})\<close> return their result, or the error they throw,
  with the catalog and the world after the call.
\<close>

definition refresh :: "host \<Rightarrow> world \<Rightarrow> catalog \<Rightarrow> (error + cache) \<times> catalog \<times> world" where
  "refresh H w c =
     (case callNodeRed w of
        (Inl e, w') \<Rightarrow> (Inl e, c, w')
      | (Inr html, w') \<Rightarrow>
          (Inr (build_cache H c html (w_now w')),
           c\<lparr>k_cache := build_cache H c html (w_now w')\<rparr>, w'))"

definition getCatalog :: "host \<Rightarrow> world \<Rightarrow> catalog \<Rightarrow> bool
    \<Rightarrow> (error + cache) \<times> catalog \<times> world" where
  "getCatalog H w c force =
     (if force \<or> isExpired c (w_now w) \<or> c_nodes (k_cache c) = []
      then (case refresh H w c of
              (Inl e, c', w') \<Rightarrow> (Inl e, c', w')
            | (Inr snap, c', w') \<Rightarrow> (Inr (k_cache c'), c', w'))
      else (Inr (k_cache c), c, w))"

section \<open>Search\<close>


















section \<open>Notions of the statements\<close>

text \<open>The node kinds that stand for a computation the evaluator never performs.\<close>

fun is_dynamic_kind :: "node \<Rightarrow> bool" where
  "is_dynamic_kind (CallExpression s e c as) = True"
| "is_dynamic_kind (MemberExpression s e ob p c) = True"
| "is_dynamic_kind (BinaryExpression s e l r) = True"
| "is_dynamic_kind (LogicalExpression s e l r) = True"
| "is_dynamic_kind (ConditionalExpression s e t c a) = True"
| "is_dynamic_kind (NewExpression s e c as) = True"
| "is_dynamic_kind _ = False"

text \<open>
  The concatenation of the quasis of a template with the texts of its embedded values, in
  the order of the source: a quasi, a value, a quasi, and so on.
\<close>

fun concat_quasis :: "string option list \<Rightarrow> string list \<Rightarrow> string" where
  "concat_quasis [] vs = []"
| "concat_quasis (q # qs) [] = cooked q @ concat_quasis qs []"
| "concat_quasis (q # qs) (v # vs) = cooked q @ v @ concat_quasis qs vs"

text \<open>
  A refresh is due at a read: \<open>force\<close> is set, or the snapshot has no nodes, or the
  threshold is zero, or more time than the threshold has passed since the timestamp.
\<close>

definition refresh_due :: "catalog \<Rightarrow> world \<Rightarrow> bool \<Rightarrow> bool" where
  "refresh_due c w force =
     (force \<or> c_nodes (k_cache c) = [] \<or> k_ttlMs c = 0 \<or> w_now w - ts (k_cache c) > k_ttlMs c)"

subsection \<open>Example scripts\<close>

text \<open>The text of a whole number, for the examples.\<close>

definition whole_number_text :: "jsnum \<Rightarrow> string" where
  "whole_number_text n =
     (case n of Fin r \<Rightarrow> show_int \<lfloor>r\<rfloor> | NaN \<Rightarrow> ''NaN'' | PosInf \<Rightarrow> ''Infinity''
      | NegInf \<Rightarrow> ''-Infinity'')"

text \<open>The callee \<open>RED.nodes.registerType\<close> that starts at an offset of the source.\<close>

definition register_callee :: "nat \<Rightarrow> node" where
  "register_callee off =
     MemberExpression off (off + 22)
       (MemberExpression off (off + 9) (Identifier off (off + 3) ''RED'')
          (Identifier (off + 4) (off + 9) ''nodes'') False)
       (Identifier (off + 10) (off + 22) ''registerType'') False"

text \<open>The script \<^verbatim>\<open>RED.nodes.registerType('foo',opts)\<close> and its tree.\<close>

definition direct_ref_src :: string where
  "direct_ref_src = ''RED.nodes.registerType('foo',opts)''"

definition direct_ref_ast :: node where
  "direct_ref_ast =
     Other ''Program'' 0 34
       [Other ''ExpressionStatement'' 0 34
          [CallExpression 0 34 (register_callee 0)
             [Literal 23 28 (VStr ''foo''), Identifier 29 33 ''opts'']]]"





text \<open>The module \<open>node-red/test\<close>, split into its parts.\<close>

definition test_module :: module_parts where
  "test_module = \<lparr>m_module = ''node-red/test'', m_modulePackage = ''node-red'', m_moduleSet = Some ''test''\<rparr>"







subsection \<open>Example hosts and pages\<close>

text \<open>
  Two comparisons of strings: by code units, and by letters without regard to case, as
  the collation of a runtime does at its first level. A comparison is consistent when it
  is total and transitive; the result of \<open>sort\<close> is determined for such a comparison only.
\<close>

definition code_unit_compare :: "string \<Rightarrow> string \<Rightarrow> int" where
  "code_unit_compare a b = (if a < b then - 1 else if b < a then 1 else 0)"

definition letters_compare :: "string \<Rightarrow> string \<Rightarrow> int" where
  "letters_compare a b = code_unit_compare (toLowerCase a) (toLowerCase b)"

definition consistent_compare :: "(string \<Rightarrow> string \<Rightarrow> int) \<Rightarrow> bool" where
  "consistent_compare cmp =
     ((\<forall>a b. cmp a b \<le> 0 \<or> cmp b a \<le> 0)
      \<and> (\<forall>a b c. cmp a b \<le> 0 \<longrightarrow> cmp b c \<le> 0 \<longrightarrow> cmp a c \<le> 0))"

text \<open>
  A host for the examples: it finds the given script elements in every fragment, has no
  script that parses, and takes a fragment as its own text.
\<close>

definition help_script :: "string \<Rightarrow> string \<Rightarrow> script_el" where
  "help_script ty html =
     \<lparr>el_type = Some ''text/html'', el_help_name = Some ty, el_template_name = None, el_html = Some html\<rparr>"

definition test_host :: "(string \<Rightarrow> string \<Rightarrow> int) \<Rightarrow> script_el list \<Rightarrow> host" where
  "test_host cmp scripts =
     \<lparr>numberToString = whole_number_text, localeCompare = cmp, acorn_parse = (\<lambda>src. None),
      cheerio_scripts = (\<lambda>html. scripts), cheerio_text = (\<lambda>html. Some html),
      cheerio_ids = (\<lambda>html. Some [])\<rparr>"

text \<open>
  A host for a page with one script: it finds the script in every fragment and parses that
  script, and nothing else, to the given tree.
\<close>

definition js_script :: "string \<Rightarrow> script_el" where
  "js_script code =
     \<lparr>el_type = Some ''text/javascript'', el_help_name = None, el_template_name = None,
      el_html = Some code\<rparr>"

definition script_host :: "string \<Rightarrow> node \<Rightarrow> host" where
  "script_host code ast =
     (test_host code_unit_compare [js_script code])
       \<lparr>acorn_parse := (\<lambda>src. if src = code then Some ast else None)\<rparr>"

text \<open>A page with one module, \<open>m\<close>, and the two help elements of the examples.\<close>

definition one_module_html :: string where
  "one_module_html = ''<!-- --- [red-module:m] --- -->''"

definition two_help_scripts :: "script_el list" where
  "two_help_scripts = [help_script ''B'' ''b'', help_script ''a'' ''a'']"

definition plain_host :: host where
  "plain_host = test_host code_unit_compare two_help_scripts"

subsection \<open>Example catalogs and worlds\<close>

text \<open>
  A catalog with two nodes published at time 1000 and a threshold of one minute; a world
  whose admin surface answers with a page of one module, and one whose transport fails; a
  response with a status that is not a success.
\<close>

definition foo_node :: "string \<Rightarrow> cat_node" where
  "foo_node ty =
     markCustom []
       ((fresh_node ty)\<lparr>n_module := ''node-red/test'', n_modulePackage := ''node-red'',
                        n_moduleSet := Some ''test'', n_category := VStr ''x''\<rparr>)"

definition test_catalog :: catalog where
  "test_catalog =
     \<lparr>k_ttlMs = 60000, k_customModules = [], k_verbose = False, k_nodeRedUrl = ''http://localhost:1880'',
      k_cache = \<lparr>ts = 1000,
                 c_nodesByType = [(''foo'', foo_node ''foo''), (''foo2'', foo_node ''foo2'')],
                 c_nodes = [foo_node ''foo'', foo_node ''foo2''],
                 c_warnings = [], c_nodeRedUrl = Some ''http://localhost:1880''\<rparr>\<rparr>"

definition up_world :: "int \<Rightarrow> world" where
  "up_world t =
     \<lparr>w_now = t,
      w_outcome = Responded \<lparr>res_ok = True, res_status = 200, res_statusText = ''OK'',
                             res_text = Some one_module_html, res_is_json = False, res_json = None\<rparr>,
      w_elapsed = 5, w_requests = 0\<rparr>"

definition down_world :: "int \<Rightarrow> world" where
  "down_world t = \<lparr>w_now = t, w_outcome = Rejected ''fetch failed'', w_elapsed = 5, w_requests = 0\<rparr>"

definition unavailable :: response where
  "unavailable =
     \<lparr>res_ok = False, res_status = 503, res_statusText = ''Service Unavailable'',
      res_text = Some ''busy'', res_is_json = False, res_json = None\<rparr>"

section \<open>Properties of the evaluator\<close>

text \<open>
  C1. A call, member, binary, logical, conditional or constructor expression is never
  evaluated: for every environment and every source text the evaluator returns the
  placeholder of kind \<open>expr\<close> that carries the text of the source between the offsets of
  the node (nothing when no source text is given). The evaluator is a total function, so
  no such node makes the build fail.
\<close>

theorem evalAst_dynamic_placeholder:
  assumes "is_dynamic_kind n"
  shows "evalAst ns n env src =
           VObj [(''kind'', VStr ''expr''),
                 (''source'', VStr (if src = [] then []
                                    else take (node_end n - node_start n) (drop (node_start n) src)))]"
  using assms by (cases n) (simp_all add: expr_placeholder_def sliceSource_def slice_def)

theorem evalAst_dynamic_placeholder_witness:
  "is_dynamic_kind (CallExpression 7 12 (Identifier 7 10 ''foo'') [])
   \<and> evalAst whole_number_text (CallExpression 7 12 (Identifier 7 10 ''foo'') [])
        (Map.empty(''foo'' \<mapsto> VStr ''x'')) ''{label:foo()}''
       = VObj [(''kind'', VStr ''expr''), (''source'', VStr ''foo()'')]"
  using evalAst_dynamic_placeholder [of "CallExpression 7 12 (Identifier 7 10 ''foo'') []"
      whole_number_text "Map.empty(''foo'' \<mapsto> VStr ''x'')" "''{label:foo()}''"]
  by simp

lemma evalQuasis_all_primitive:
  assumes "\<forall>x \<in> set xs. is_primitive (evalAst ns x env src)"
  shows "evalQuasis ns qs xs env src acc =
           Some (acc @ concat_quasis qs (map (\<lambda>x. js_String ns (evalAst ns x env src)) xs))"
  using assms
proof (induction qs arbitrary: xs acc)
  case Nil
  then show ?case by simp
next
  case (Cons q qs)
  then show ?case by (cases xs) (simp_all add: Let_def)
qed

lemma evalQuasis_some_dynamic:
  assumes "\<exists>x \<in> set xs. \<not> is_primitive (evalAst ns x env src)" and "length xs < length qs"
  shows "evalQuasis ns qs xs env src acc = None"
  using assms
proof (induction qs arbitrary: xs acc)
  case Nil
  then show ?case by simp
next
  case (Cons q qs)
  show ?case
  proof (cases xs)
    case Nil
    with Cons.prems show ?thesis by simp
  next
    case (Cons x xs')
    show ?thesis
    proof (cases "is_primitive (evalAst ns x env src)")
      case True
      with Cons.prems \<open>xs = x # xs'\<close>
      have "\<exists>y \<in> set xs'. \<not> is_primitive (evalAst ns y env src)" and "length xs' < length qs"
        by auto
      then have "evalQuasis ns qs xs' env src (acc @ cooked q @ js_String ns (evalAst ns x env src)) = None"
        by (rule Cons.IH)
      with True \<open>xs = x # xs'\<close> show ?thesis by (simp add: Let_def)
    next
      case False
      with \<open>xs = x # xs'\<close> show ?thesis by (simp add: Let_def)
    qed
  qed
qed

text \<open>
  C8. A template literal of the parser has one quasi more than it has embedded
  expressions. When every embedded expression evaluates to a string, a number or a
  boolean, the evaluator returns the concatenation of the quasis with the texts of these
  values; when one of them does not, it returns the single placeholder of kind
  \<open>template\<close> with the source text of the whole template, and nothing of the text that
  was built.
\<close>

theorem template_all_or_nothing:
  assumes "length quasis = Suc (length expressions)"
  shows "evalAst ns (TemplateLiteral s e quasis expressions) env src =
           (if \<forall>x \<in> set expressions. is_primitive (evalAst ns x env src)
            then VStr (concat_quasis quasis
                         (map (\<lambda>x. js_String ns (evalAst ns x env src)) expressions))
            else VObj [(''kind'', VStr ''template''),
                       (''source'', VStr (if src = [] then [] else take (e - s) (drop s src)))])"
proof (cases "\<forall>x \<in> set expressions. is_primitive (evalAst ns x env src)")
  case True
  then show ?thesis by (simp add: evalQuasis_all_primitive)
next
  case False
  then have "\<exists>x \<in> set expressions. \<not> is_primitive (evalAst ns x env src)" by simp
  moreover from assms have "length expressions < length quasis" by simp
  ultimately have "evalQuasis ns quasis expressions env src [] = None"
    by (rule evalQuasis_some_dynamic)
  with False show ?thesis
    by (simp add: template_placeholder_def sliceSource_def slice_def)
qed

text \<open>
  The templates \<^verbatim>\<open>`a${n}b${ok}c`\<close>, with \<open>n\<close> bound to the string 3 and \<open>ok\<close> to true, and
  \<^verbatim>\<open>`a${n}b${f()}c`\<close>, whose second expression is a call.
\<close>

theorem template_all_or_nothing_witness:
  "length [Some ''a'', Some ''b'', Some ''c'']
     = Suc (length [Identifier 4 5 ''n'', Identifier 9 11 ''ok''])
   \<and> evalAst whole_number_text
        (TemplateLiteral 0 14 [Some ''a'', Some ''b'', Some ''c'']
           [Identifier 4 5 ''n'', Identifier 9 11 ''ok''])
        (Map.empty(''n'' \<mapsto> VStr ''3'', ''ok'' \<mapsto> VBool True)) ''`a${n}b${ok}c`''
       = VStr ''a3btruec''
   \<and> evalAst whole_number_text
        (TemplateLiteral 0 15 [Some ''a'', Some ''b'', Some ''c'']
           [Identifier 4 5 ''n'', CallExpression 9 12 (Identifier 9 10 ''f'') []])
        (Map.empty(''n'' \<mapsto> VStr ''3'')) ''`a${n}b${f()}c`''
       = VObj [(''kind'', VStr ''template''), (''source'', VStr ''`a${n}b${f()}c`'')]"
  using template_all_or_nothing [of "[Some ''a'', Some ''b'', Some ''c'']"
      "[Identifier 4 5 ''n'', Identifier 9 11 ''ok'']" whole_number_text 0 14
      "Map.empty(''n'' \<mapsto> VStr ''3'', ''ok'' \<mapsto> VBool True)" "''`a${n}b${ok}c`''"]
    template_all_or_nothing [of "[Some ''a'', Some ''b'', Some ''c'']"
      "[Identifier 4 5 ''n'', CallExpression 9 12 (Identifier 9 10 ''f'') []]" whole_number_text 0 15
      "Map.empty(''n'' \<mapsto> VStr ''3'')" "''`a${n}b${f()}c`''"]
  by (simp add: cooked_def expr_placeholder_def)

section \<open>Properties of the registration finder\<close>

lemma reg_callee [simp]: "isRegisterTypeCallee ns (register_callee off)"
  by (simp add: register_callee_def)

text \<open>
  C2, as the code has it. A call whose callee is \<open>RED.nodes.registerType\<close> is accepted
  exactly when its first argument is a string literal that is not empty. The second
  argument need not be an object literal: whatever expression it is, the evaluator reduces
  it (to \<open>null\<close> when it is absent), and the call contributes one registration with that
  value and the source text of the argument. A call whose first argument is anything else
  contributes nothing.
\<close>

theorem direct_call_needs_string_type:
  assumes "isRegisterTypeCallee ns callee"
  shows "(\<forall>ts te ty. ty \<noteq> [] \<longrightarrow> nth_opt args 0 = Some (Literal ts te (VStr ty)) \<longrightarrow>
            call_visitor ns src wrappers (CallExpression s e callee args) found =
              found @ [\<lparr>f_type = ty,
                         f_options = (case nth_opt args 1 of
                                        None \<Rightarrow> VNull
                                      | Some optionsArg \<Rightarrow> evalAst ns optionsArg Map.empty src),
                         f_optionsSource = (case nth_opt args 1 of
                                              None \<Rightarrow> []
                                            | Some optionsArg \<Rightarrow>
                                                take (node_end optionsArg - node_start optionsArg)
                                                  (drop (node_start optionsArg) src))\<rparr>])
       \<and> ((\<nexists>ts te ty. ty \<noteq> [] \<and> nth_opt args 0 = Some (Literal ts te (VStr ty))) \<longrightarrow>
            call_visitor ns src wrappers (CallExpression s e callee args) found = found)"
proof (intro conjI allI impI)
  fix ts te ty
  assume "ty \<noteq> []" and "nth_opt args 0 = Some (Literal ts te (VStr ty))"
  with assms show "call_visitor ns src wrappers (CallExpression s e callee args) found =
      found @ [\<lparr>f_type = ty,
                 f_options = (case nth_opt args 1 of
                                None \<Rightarrow> VNull
                              | Some optionsArg \<Rightarrow> evalAst ns optionsArg Map.empty src),
                 f_optionsSource = (case nth_opt args 1 of
                                      None \<Rightarrow> []
                                    | Some optionsArg \<Rightarrow>
                                        take (node_end optionsArg - node_start optionsArg)
                                          (drop (node_start optionsArg) src))\<rparr>]"
    by (simp add: slice_def split: option.splits)
next
  assume none: "\<nexists>ts te ty. ty \<noteq> [] \<and> nth_opt args 0 = Some (Literal ts te (VStr ty))"
  show "call_visitor ns src wrappers (CallExpression s e callee args) found = found"
  proof (cases "extractStringLiteral (nth_opt args 0)")
    case None
    with assms show ?thesis by simp
  next
    case (Some ty)
    then obtain ts te where "nth_opt args 0 = Some (Literal ts te (VStr ty))"
      by (elim extractStringLiteral.elims) auto
    with none have "ty = []" by auto
    with assms Some show ?thesis by simp
  qed
qed

text \<open>
  The calls \<^verbatim>\<open>RED.nodes.registerType('foo',{})\<close>, which is accepted, and
  \<^verbatim>\<open>RED.nodes.registerType(name,{})\<close>, which is skipped.
\<close>

theorem direct_call_needs_string_type_witness:
  "isRegisterTypeCallee whole_number_text (register_callee 0)
   \<and> call_visitor whole_number_text ''RED.nodes.registerType('foo',{})'' Map.empty
        (CallExpression 0 32 (register_callee 0)
           [Literal 23 28 (VStr ''foo''), ObjectExpression 29 31 []]) []
       = [\<lparr>f_type = ''foo'', f_options = VObj [], f_optionsSource = ''{}''\<rparr>]
   \<and> call_visitor whole_number_text ''RED.nodes.registerType(name,{})'' Map.empty
        (CallExpression 0 31 (register_callee 0)
           [Identifier 23 27 ''name'', ObjectExpression 28 30 []]) []
       = []"
  using direct_call_needs_string_type [of whole_number_text "register_callee 0"
      "[Literal 23 28 (VStr ''foo''), ObjectExpression 29 31 []]"
      "''RED.nodes.registerType('foo',{})''" Map.empty 0 32 "[]"]
    direct_call_needs_string_type [of whole_number_text "register_callee 0"
      "[Identifier 23 27 ''name'', ObjectExpression 28 30 []]"
      "''RED.nodes.registerType(name,{})''" Map.empty 0 31 "[]"]
  by simp

text \<open>
  The script \<^verbatim>\<open>RED.nodes.registerType('foo',opts)\<close> passes a name, not an object
  literal, as the options. The call is not skipped: it contributes the registration of
  \<open>foo\<close> with the reference placeholder as its options, and the catalog built from a
  page with this script has the record of \<open>foo\<close>.
\<close>

lemma dynamic_page:
  "map (\<lambda>n. (n_type n, n_options n))
     (r_nodes (parseNodesHtml (script_host direct_ref_src direct_ref_ast) one_module_html False))
     = [(''foo'', VObj [(''kind'', VStr ''ref''), (''name'', VStr ''opts'')])]"
  by code_simp

theorem non_literal_options_registered:
  "find_registrations whole_number_text direct_ref_src direct_ref_ast =
     [\<lparr>f_type = ''foo'',
       f_options = VObj [(''kind'', VStr ''ref''), (''name'', VStr ''opts'')],
       f_optionsSource = ''opts''\<rparr>]
   \<and> map (\<lambda>n. (n_type n, n_options n))
        (r_nodes (parseNodesHtml (script_host direct_ref_src direct_ref_ast) one_module_html False))
       = [(''foo'', VObj [(''kind'', VStr ''ref''), (''name'', VStr ''opts'')])]"
  by (simp add: dynamic_page)
     (simp add: find_registrations_def discover_wrappers_def direct_ref_ast_def
        direct_ref_src_def ref_placeholder_def slice_def register_callee_def)

text \<open>
  For a parameter list of plain names the recorded parameters are these names, in their
  positions. Parameters of any other form (patterns, defaults, rest) are dropped from the
  recorded list.
\<close>

lemma param_names_plain:
  assumes "\<forall>n \<in> set names. snd (snd n) \<noteq> []"
  shows "param_names (map (\<lambda>(s, e, name). Identifier s e name) names) = map (\<lambda>(s, e, name). name) names"
  using assms by (induction names) (auto simp: param_names_def List.map_filter_def)

lemma test_module_split: "splitModuleName ''node-red/test'' = test_module"
  by (simp add: splitModuleName_def test_module_def starts_with_def or_null_def Let_def)








section \<open>Properties of the catalog builder\<close>

lemma map_of_obj_insert:
  "k \<notin> set (map fst ps) \<Longrightarrow> map_of (obj_insert ps k v) k' = (if k' = k then Some v else map_of ps k')"
proof (induction ps)
  case Nil
  then show ?case by simp
next
  case (Cons p ps)
  obtain a b where p: "p = (a, b)" by (cases p)
  from Cons.prems p have ne: "a \<noteq> k" and notin: "k \<notin> set (map fst ps)" by auto
  show ?case
  proof (cases "k' = k")
    case True
    from notin have "map_of (obj_insert ps k v) k' = (if k' = k then Some v else map_of ps k')"
      by (rule Cons.IH)
    with True have IH: "map_of (obj_insert ps k v) k = Some v" by simp
    show ?thesis unfolding True
      by (cases "array_index k"; cases "array_index a") (use ne IH in \<open>simp_all add: p\<close>)
  next
    case False
    from notin have "map_of (obj_insert ps k v) k' = (if k' = k then Some v else map_of ps k')"
      by (rule Cons.IH)
    with False have IH: "map_of (obj_insert ps k v) k' = map_of ps k'" by simp
    show ?thesis
      by (cases "array_index k"; cases "array_index a") (use False IH in \<open>simp_all add: p\<close>)
  qed
qed

lemma map_of_obj_update:
  "k \<in> set (map fst ps) \<Longrightarrow> map_of (obj_update ps k v) k' = (if k' = k then Some v else map_of ps k')"
proof (induction ps)
  case Nil
  then show ?case by simp
next
  case (Cons p ps)
  obtain a b where p: "p = (a, b)" by (cases p)
  show ?case
  proof (cases "a = k")
    case True
    with p show ?thesis by simp
  next
    case False
    with Cons.prems p have "k \<in> set (map fst ps)" by auto
    then have IH: "map_of (obj_update ps k v) k' = (if k' = k then Some v else map_of ps k')"
      by (rule Cons.IH)
    show ?thesis
    proof (cases "k' = k")
      case True
      with IH have "map_of (obj_update ps k v) k = Some v" by simp
      with False show ?thesis unfolding True by (simp add: p)
    next
      case k: False
      with IH have "map_of (obj_update ps k v) k' = map_of ps k'" by simp
      with False k show ?thesis by (simp add: p)
    qed
  qed
qed

lemma map_of_obj_set:
  "map_of (obj_set ps k v) k' = (if k' = k \<and> k \<noteq> ''__proto__'' then Some v else map_of ps k')"
  by (simp add: obj_set_def map_of_obj_update map_of_obj_insert)

text \<open>
  Help and template fragments write the module fields and their own fields of the record
  of their type, and nothing else of it.
\<close>

lemma attach_help_record:
  assumes "ty \<noteq> ''__proto__''"
  shows "node_or_fresh (attach_help H m (ty, helpHtml) nodesByType) ty =
           (node_or_fresh nodesByType ty)
             \<lparr>n_module := m_module m, n_modulePackage := m_modulePackage m,
              n_moduleSet := m_moduleSet m, n_help := Some (helpHtml, htmlToText H helpHtml)\<rparr>"
  using assms by (simp add: attach_help_def node_or_fresh_def [of "obj_set _ _ _"] map_of_obj_set)

lemma attach_template_record:
  assumes "ty \<noteq> ''__proto__''"
  shows "node_or_fresh (attach_template H m (ty, templateHtml) nodesByType) ty =
           (node_or_fresh nodesByType ty)
             \<lparr>n_module := m_module m, n_modulePackage := m_modulePackage m,
              n_moduleSet := m_moduleSet m,
              n_template := Some (templateHtml, htmlToText H templateHtml),
              n_templateFields := Some (extractTemplateFields H templateHtml)\<rparr>"
  using assms by (simp add: attach_template_def node_or_fresh_def [of "obj_set _ _ _"] map_of_obj_set)







lemma code_unit_types:
  "map n_type (r_nodes (parseNodesHtml (test_host code_unit_compare two_help_scripts) one_module_html False))
     = [''B'', ''a'']"
  by code_simp




lemma set_insert_sorted: "set (insert_sorted cmp x xs) = insert x (set xs)"
  by (induction xs) auto

lemma mset_insert_sorted: "mset (insert_sorted cmp x xs) = add_mset x (mset xs)"
  by (induction xs) auto

lemma mset_js_sort: "mset (js_sort cmp xs) = mset xs"
  by (induction xs) (simp_all add: js_sort_def mset_insert_sorted)

lemma sorted_insert_sorted:
  assumes total: "\<And>a b. cmp a b \<le> (0::int) \<or> cmp b a \<le> 0"
    and trans: "\<And>a b c. cmp a b \<le> 0 \<Longrightarrow> cmp b c \<le> 0 \<Longrightarrow> cmp a c \<le> 0"
    and "sorted_wrt (\<lambda>a b. cmp a b \<le> 0) xs"
  shows "sorted_wrt (\<lambda>a b. cmp a b \<le> 0) (insert_sorted cmp x xs)"
  using assms(3)
proof (induction xs)
  case Nil
  then show ?case by simp
next
  case (Cons y ys)
  show ?case
  proof (cases "cmp x y \<le> 0")
    case True
    with Cons.prems trans show ?thesis by auto
  next
    case False
    with total have "cmp y x \<le> 0" by blast
    with Cons False show ?thesis by (auto simp: set_insert_sorted)
  qed
qed

lemma sorted_js_sort:
  assumes total: "\<And>a b. cmp a b \<le> (0::int) \<or> cmp b a \<le> 0"
    and trans: "\<And>a b c. cmp a b \<le> 0 \<Longrightarrow> cmp b c \<le> 0 \<Longrightarrow> cmp a c \<le> 0"
  shows "sorted_wrt (\<lambda>a b. cmp a b \<le> 0) (js_sort cmp xs)"
proof (induction xs)
  case Nil
  then show ?case by (simp add: js_sort_def)
next
  case (Cons x xs)
  have "js_sort cmp (x # xs) = insert_sorted cmp x (js_sort cmp xs)"
    by (simp add: js_sort_def)
  with Cons show ?case
    using sorted_insert_sorted [of cmp "js_sort cmp xs" x, OF total trans] by simp
qed

lemma consistent_code_unit: "consistent_compare code_unit_compare"
  unfolding consistent_compare_def code_unit_compare_def
  by (auto split: if_splits)



text \<open>
  A page with help for the types \<open>B\<close> and \<open>a\<close>, on a host whose collation puts letters
  before case: the node list is \<open>a\<close>, \<open>B\<close>, and \<open>a\<close> is not below \<open>B\<close> in the
  lexicographic order of the code units.
\<close>

theorem collation_is_not_code_unit_order:
  "map n_type (r_nodes (parseNodesHtml (test_host letters_compare two_help_scripts) one_module_html False))
     = [''a'', ''B'']
   \<and> \<not> (''a'' \<le> ''B'')"
  by code_simp

text \<open>
  C9, as the code has it. The node list of a build holds exactly the records of the
  catalog and is in ascending order of their types under \<open>localeCompare\<close>, the collation
  of the host, when that comparison is consistent: every record is at most each later one,
  and so each record is at most the next.
\<close>

theorem nodes_sorted_by_localeCompare:
  assumes "consistent_compare (localeCompare H)"
  shows "mset (r_nodes (parseNodesHtml H html verbose))
           = mset (map snd (r_nodesByType (parseNodesHtml H html verbose)))
       \<and> sorted_wrt (\<lambda>a b. localeCompare H (n_type a) (n_type b) \<le> 0)
            (r_nodes (parseNodesHtml H html verbose))
       \<and> (\<forall>i. Suc i < length (r_nodes (parseNodesHtml H html verbose)) \<longrightarrow>
             localeCompare H (n_type (r_nodes (parseNodesHtml H html verbose) ! i))
               (n_type (r_nodes (parseNodesHtml H html verbose) ! Suc i)) \<le> 0)"
proof -
  obtain nbt ws where f: "fold (process_module H) (split_modules html) ([], []) = (nbt, ws)"
    by (cases "fold (process_module H) (split_modules html) ([], [])")
  then have nodes: "r_nodes (parseNodesHtml H html verbose) = js_sort (compare_types H) (map snd nbt)"
    and byType: "r_nodesByType (parseNodesHtml H html verbose) = nbt"
    by (simp_all add: parseNodesHtml_def)
  from assms have total: "\<And>a b. compare_types H a b \<le> 0 \<or> compare_types H b a \<le> 0"
    and trans: "\<And>a b c. compare_types H a b \<le> 0 \<Longrightarrow> compare_types H b c \<le> 0 \<Longrightarrow> compare_types H a c \<le> 0"
    unfolding consistent_compare_def compare_types_def by blast+
  have sorted: "sorted_wrt (\<lambda>a b. compare_types H a b \<le> 0) (js_sort (compare_types H) (map snd nbt))"
    using total trans by (rule sorted_js_sort)
  then have s: "sorted_wrt (\<lambda>a b. localeCompare H (n_type a) (n_type b) \<le> 0)
            (r_nodes (parseNodesHtml H html verbose))"
    by (simp add: nodes compare_types_def)
  have m: "mset (r_nodes (parseNodesHtml H html verbose))
           = mset (map snd (r_nodesByType (parseNodesHtml H html verbose)))"
    by (simp only: nodes byType mset_js_sort)
  from s have "\<forall>i. Suc i < length (r_nodes (parseNodesHtml H html verbose)) \<longrightarrow>
             localeCompare H (n_type (r_nodes (parseNodesHtml H html verbose) ! i))
               (n_type (r_nodes (parseNodesHtml H html verbose) ! Suc i)) \<le> 0"
    by (auto simp: sorted_wrt_iff_nth_less)
  with m s show ?thesis by blast
qed

theorem nodes_sorted_by_localeCompare_witness:
  "consistent_compare (localeCompare plain_host)
   \<and> sorted_wrt (\<lambda>a b. localeCompare plain_host (n_type a) (n_type b) \<le> 0)
        (r_nodes (parseNodesHtml plain_host one_module_html False))
   \<and> map n_type (r_nodes (parseNodesHtml plain_host one_module_html False)) = [''B'', ''a'']"
proof -
  have h: "consistent_compare (localeCompare plain_host)"
    by (simp add: plain_host_def test_host_def consistent_code_unit)
  note r = nodes_sorted_by_localeCompare [OF h, of one_module_html False]
  have n: "map n_type (r_nodes (parseNodesHtml plain_host one_module_html False)) = [''B'', ''a'']"
    unfolding plain_host_def by (rule code_unit_types)
  from h r n show ?thesis by blast
qed

section \<open>Properties of the cache\<close>

lemma build_cache_ignores_cache: "build_cache H (c\<lparr>k_cache := old\<rparr>) html t = build_cache H c html t"
  by (simp add: build_cache_def)

text \<open>
  C4. \<open>getCatalog(force)\<close> makes a request to the admin surface exactly when \<open>force\<close> is
  set, or the snapshot has no nodes, or the threshold is zero, or more time than the
  threshold has passed since the timestamp of the snapshot. When the request succeeds, the
  snapshot is replaced by the one built from the page, into which nothing of the old
  snapshot enters. Otherwise the call returns the snapshot and changes nothing. In
  particular, when a call without \<open>force\<close> has returned a snapshot and no refresh is due
  at the next call without \<open>force\<close>, that call returns the same snapshot, with the same
  timestamp.
\<close>

theorem getCatalog_refreshes_exactly_when_due:
  "(refresh_due c w force \<longrightarrow>
      w_requests (snd (snd (getCatalog H w c force))) = Suc (w_requests w)
      \<and> (\<forall>html. fst (callNodeRed w) = Inr html \<longrightarrow>
            getCatalog H w c force =
              (Inr (build_cache H c html (w_now w + int (w_elapsed w))),
               c\<lparr>k_cache := build_cache H c html (w_now w + int (w_elapsed w))\<rparr>,
               snd (callNodeRed w))
            \<and> (\<forall>old. build_cache H (c\<lparr>k_cache := old\<rparr>) html (w_now w + int (w_elapsed w))
                    = build_cache H c html (w_now w + int (w_elapsed w)))))
   \<and> (\<not> refresh_due c w force \<longrightarrow> getCatalog H w c force = (Inr (k_cache c), c, w))
   \<and> (\<forall>snap c1 w1 w2.
         getCatalog H w c False = (Inr snap, c1, w1) \<longrightarrow> \<not> refresh_due c1 w2 False \<longrightarrow>
           getCatalog H w2 c1 False = (Inr snap, c1, w2) \<and> ts (k_cache c1) = ts snap)"
proof (intro conjI impI allI)
  assume due: "refresh_due c w force"
  then show "w_requests (snd (snd (getCatalog H w c force))) = Suc (w_requests w)"
    by (auto simp: refresh_due_def getCatalog_def isExpired_def refresh_def callNodeRed_def
        split: prod.splits sum.splits)
  fix html
  assume ok: "fst (callNodeRed w) = Inr html"
  then obtain w' where cn: "callNodeRed w = (Inr html, w')"
    by (cases "callNodeRed w") auto
  then have now: "w_now w' = w_now w + int (w_elapsed w)"
    by (auto simp: callNodeRed_def)
  have r: "refresh H w c =
      (Inr (build_cache H c html (w_now w + int (w_elapsed w))),
       c\<lparr>k_cache := build_cache H c html (w_now w + int (w_elapsed w))\<rparr>, snd (callNodeRed w))"
    by (simp add: refresh_def cn now)
  from due have "getCatalog H w c force =
      (case refresh H w c of (Inl e, c', w') \<Rightarrow> (Inl e, c', w')
       | (Inr snap, c', w') \<Rightarrow> (Inr (k_cache c'), c', w'))"
    by (auto simp: refresh_due_def getCatalog_def isExpired_def)
  with r show "getCatalog H w c force =
              (Inr (build_cache H c html (w_now w + int (w_elapsed w))),
               c\<lparr>k_cache := build_cache H c html (w_now w + int (w_elapsed w))\<rparr>,
               snd (callNodeRed w))"
    by simp
  fix old
  show "build_cache H (c\<lparr>k_cache := old\<rparr>) html (w_now w + int (w_elapsed w))
          = build_cache H c html (w_now w + int (w_elapsed w))"
    by (rule build_cache_ignores_cache)
next
  assume "\<not> refresh_due c w force"
  then show "getCatalog H w c force = (Inr (k_cache c), c, w)"
    by (auto simp: refresh_due_def getCatalog_def isExpired_def)
next
  fix snap c1 w1 w2
  assume first: "getCatalog H w c False = (Inr snap, c1, w1)" and fresh: "\<not> refresh_due c1 w2 False"
  from first have snap: "k_cache c1 = snap"
    by (auto simp: getCatalog_def refresh_def split: if_splits prod.splits sum.splits)
  from fresh have "getCatalog H w2 c1 False = (Inr (k_cache c1), c1, w2)"
    by (auto simp: refresh_due_def getCatalog_def isExpired_def)
  with snap show "getCatalog H w2 c1 False = (Inr snap, c1, w2)" by simp
  from snap show "ts (k_cache c1) = ts snap" by simp
qed

lemma fresh_not_due: "\<not> refresh_due test_catalog (up_world 2000) False"
  by (simp add: refresh_due_def test_catalog_def up_world_def)

lemma expired_due: "refresh_due test_catalog (up_world 100000) False"
  by (simp add: refresh_due_def test_catalog_def up_world_def)

lemma up_fetch: "fst (callNodeRed (up_world t)) = Inr one_module_html"
  by (simp add: callNodeRed_def up_world_def)

theorem getCatalog_refreshes_exactly_when_due_witness:
  "\<not> refresh_due test_catalog (up_world 2000) False
   \<and> getCatalog plain_host (up_world 2000) test_catalog False
       = (Inr (k_cache test_catalog), test_catalog, up_world 2000)
   \<and> refresh_due test_catalog (up_world 100000) False
   \<and> w_requests (snd (snd (getCatalog plain_host (up_world 100000) test_catalog False))) = Suc 0
   \<and> fst (getCatalog plain_host (up_world 100000) test_catalog False)
       = Inr (build_cache plain_host test_catalog one_module_html 100005)
   \<and> fst (getCatalog plain_host (up_world 100010)
             (fst (snd (getCatalog plain_host (up_world 100000) test_catalog False))) False)
       = Inr (build_cache plain_host test_catalog one_module_html 100005)"
proof -
  let ?new = "build_cache plain_host test_catalog one_module_html 100005"
  note a = getCatalog_refreshes_exactly_when_due [of test_catalog "up_world 2000" False plain_host]
  note b = getCatalog_refreshes_exactly_when_due [of test_catalog "up_world 100000" False plain_host]
  from a fresh_not_due have 1: "getCatalog plain_host (up_world 2000) test_catalog False
       = (Inr (k_cache test_catalog), test_catalog, up_world 2000)" by blast
  from b expired_due have 2: "w_requests (snd (snd (getCatalog plain_host (up_world 100000) test_catalog False))) = Suc 0"
    by (simp add: up_world_def)
  have t: "w_now (up_world 100000) + int (w_elapsed (up_world 100000)) = 100005"
    by (simp add: up_world_def)
  from b expired_due up_fetch [of 100000]
  have 3: "getCatalog plain_host (up_world 100000) test_catalog False =
      (Inr ?new, test_catalog\<lparr>k_cache := ?new\<rparr>, snd (callNodeRed (up_world 100000)))"
    unfolding t by blast
  have nodes: "c_nodes ?new \<noteq> []"
    by code_simp
  have nd: "\<not> refresh_due (test_catalog\<lparr>k_cache := ?new\<rparr>) (up_world 100010) False"
    using nodes by (simp add: refresh_due_def test_catalog_def up_world_def build_cache_def Let_def)
  from b 3 nd have 4: "getCatalog plain_host (up_world 100010) (test_catalog\<lparr>k_cache := ?new\<rparr>) False
       = (Inr ?new, test_catalog\<lparr>k_cache := ?new\<rparr>, up_world 100010)"
    by blast
  from 1 2 3 4 fresh_not_due expired_due show ?thesis by simp
qed

text \<open>
  The catalog was published at time 1000 with a threshold of one minute. At time 100000
  the transport fails: \<open>refresh()\<close> raises the error and leaves the catalog as it was. A
  read without \<open>force\<close> at time 100100 does not return the last good snapshot: it tries
  to refresh, and raises the error of the transport.
\<close>

theorem stale_read_fails_after_failed_refresh:
  "fst (refresh plain_host (down_world 100000) test_catalog) = Inl (FetchRejected ''fetch failed'')
   \<and> fst (snd (refresh plain_host (down_world 100000) test_catalog)) = test_catalog
   \<and> fst (getCatalog plain_host (down_world 100100)
             (fst (snd (refresh plain_host (down_world 100000) test_catalog))) False)
       = Inl (FetchRejected ''fetch failed'')"
  by (simp add: refresh_def getCatalog_def callNodeRed_def down_world_def isExpired_def test_catalog_def)

text \<open>
  C5, as the code has it. When the transport rejects the request, or the response has a
  status that is not a success, \<open>refresh()\<close> raises the error (for a response, with the
  status and the body in its message) and the catalog, with its snapshot, is unchanged. A
  later read without \<open>force\<close> returns that snapshot when it has nodes and is within a
  threshold that is not zero.
\<close>

theorem refresh_failure_keeps_cache:
  assumes "w_outcome w = Rejected msg \<or> (w_outcome w = Responded r \<and> \<not> res_ok r)"
  shows "fst (refresh H w c) =
           Inl (if w_outcome w = Rejected msg then FetchRejected msg else ApiError (api_error_message r))
       \<and> fst (snd (refresh H w c)) = c
       \<and> (\<forall>w2. c_nodes (k_cache c) \<noteq> [] \<longrightarrow> k_ttlMs c \<noteq> 0 \<longrightarrow> w_now w2 - ts (k_cache c) \<le> k_ttlMs c \<longrightarrow>
             getCatalog H w2 (fst (snd (refresh H w c))) False = (Inr (k_cache c), c, w2))"
proof -
  from assms have err: "fst (callNodeRed w) =
      Inl (if w_outcome w = Rejected msg then FetchRejected msg else ApiError (api_error_message r))"
    by (auto simp: callNodeRed_def)
  then have r: "refresh H w c =
      (Inl (if w_outcome w = Rejected msg then FetchRejected msg else ApiError (api_error_message r)),
       c, snd (callNodeRed w))"
    by (cases "callNodeRed w") (simp add: refresh_def)
  have "getCatalog H w2 c False = (Inr (k_cache c), c, w2)"
    if "c_nodes (k_cache c) \<noteq> []" "k_ttlMs c \<noteq> 0" "w_now w2 - ts (k_cache c) \<le> k_ttlMs c" for w2
    using that by (simp add: getCatalog_def isExpired_def)
  with r show ?thesis by simp
qed

theorem refresh_failure_keeps_cache_witness:
  "w_outcome (down_world 2000) = Rejected ''fetch failed''
   \<and> fst (refresh plain_host (down_world 2000) test_catalog) = Inl (FetchRejected ''fetch failed'')
   \<and> fst (snd (refresh plain_host (down_world 2000) test_catalog)) = test_catalog
   \<and> getCatalog plain_host (down_world 3000)
        (fst (snd (refresh plain_host (down_world 2000) test_catalog))) False
       = (Inr (k_cache test_catalog), test_catalog, down_world 3000)"
proof -
  have h: "w_outcome (down_world 2000) = Rejected ''fetch failed''
           \<or> (w_outcome (down_world 2000) = Responded unavailable \<and> \<not> res_ok unavailable)"
    by (simp add: down_world_def)
  note r = refresh_failure_keeps_cache [OF h, of plain_host test_catalog]
  have c: "c_nodes (k_cache test_catalog) \<noteq> []" "k_ttlMs test_catalog \<noteq> 0"
    "w_now (down_world 3000) - ts (k_cache test_catalog) \<le> k_ttlMs test_catalog"
    by (simp_all add: test_catalog_def down_world_def)
  from r c have "getCatalog plain_host (down_world 3000)
        (fst (snd (refresh plain_host (down_world 2000) test_catalog))) False
       = (Inr (k_cache test_catalog), test_catalog, down_world 3000)"
    by blast
  moreover from r have "fst (refresh plain_host (down_world 2000) test_catalog) = Inl (FetchRejected ''fetch failed'')"
    by (simp add: down_world_def)
  moreover from r have "fst (snd (refresh plain_host (down_world 2000) test_catalog)) = test_catalog"
    by blast
  moreover have "w_outcome (down_world 2000) = Rejected ''fetch failed''"
    by (simp add: down_world_def)
  ultimately show ?thesis by blast
qed

section \<open>Properties of the search\<close>




end
